theory Spec2Isabelle
  imports Complex_Main
begin

section \<open>Python values shared by the modules\<close>

text \<open>
  Exceptions of the Python source are values. Only the classes that the modelled
  functions raise are listed; every handler of the source that matters here is an
  \<open>except Exception\<close>, which catches all of them. A \<open>KeyError\<close> carries the
  missing key, the others their message; \<open>Exception\<close> is the base class, raised as
  such by \<open>get_connection\<close>, and \<open>DatabaseError\<close> stands for the errors of the
  database driver.
\<close>

datatype exn =
    Exception string
  | ValueError string
  | TypeError string
  | KeyError string
  | AttributeError string
  | OverflowError string
  | DatabaseError string

text \<open>
  \<open>str(e)\<close>: the message; for a \<open>KeyError\<close> the \<open>repr\<close> of the key, which
  for the keys used here (no quote, no backslash) is the key between single quotes.
\<close>

definition quoted :: "string \<Rightarrow> string" where
  "quoted s = [CHR 0x27] @ s @ [CHR 0x27]"

fun exn_str :: "exn \<Rightarrow> string" where
  "exn_str (Exception m) = m"
| "exn_str (ValueError m) = m"
| "exn_str (TypeError m) = m"
| "exn_str (KeyError k) = quoted k"
| "exn_str (AttributeError m) = m"
| "exn_str (OverflowError m) = m"
| "exn_str (DatabaseError m) = m"

subsection \<open>Naive datetimes\<close>

text \<open>
  A \<open>datetime.datetime\<close> without timezone: the proleptic Gregorian ordinal of its date
  (\<open>date.toordinal()\<close>, day 1 is 0001-01-01, a Monday) and the time of day.
  \<open>weekday()\<close> is \<open>(toordinal() + 6) % 7\<close>, Monday = 0. Adding a
  \<open>timedelta(days=1)\<close> raises \<open>OverflowError\<close> past 9999-12-31, and
  \<open>replace(hour=h, ...)\<close> raises \<open>ValueError\<close> unless \<open>0 <= h <= 23\<close>.
\<close>

record datetime =
  ordinal :: int
  hour :: int
  minute :: int
  second :: int
  microsecond :: int

definition MAXORDINAL :: int where
  "MAXORDINAL = 3652059"

definition weekday :: "datetime \<Rightarrow> int" where
  "weekday d = (ordinal d + 6) mod 7"

definition dt_less :: "datetime \<Rightarrow> datetime \<Rightarrow> bool" where
  "dt_less a b =
     (ordinal a < ordinal b \<or> (ordinal a = ordinal b \<and>
       (hour a < hour b \<or> (hour a = hour b \<and>
         (minute a < minute b \<or> (minute a = minute b \<and>
           (second a < second b \<or> (second a = second b \<and>
             microsecond a < microsecond b))))))))"

definition add_one_day :: "datetime \<Rightarrow> exn + datetime" where
  "add_one_day d =
     (if ordinal d + 1 > MAXORDINAL then Inl (OverflowError ''date value out of range'')
      else Inr (d\<lparr>ordinal := ordinal d + 1\<rparr>))"

definition replace_hour :: "datetime \<Rightarrow> int \<Rightarrow> exn + datetime" where
  "replace_hour d h =
     (if 0 \<le> h \<and> h \<le> 23
      then Inr (d\<lparr>hour := h, minute := 0, second := 0, microsecond := 0\<rparr>)
      else Inl (ValueError ''hour must be in 0..23''))"

subsection \<open>Floats\<close>

text \<open>
  A Python \<open>float\<close>: a finite value, written as the rational number it denotes, an
  infinity, or NaN. The source only compares floats, and the comparisons are those of
  IEEE 754: every comparison with NaN is false.
\<close>

datatype pyfloat = Fin rat | PosInf | NegInf | NaN

fun fl_lt :: "pyfloat \<Rightarrow> pyfloat \<Rightarrow> bool" where
  "fl_lt NaN _ = False"
| "fl_lt _ NaN = False"
| "fl_lt (Fin a) (Fin b) = (a < b)"
| "fl_lt (Fin _) PosInf = True"
| "fl_lt (Fin _) NegInf = False"
| "fl_lt PosInf _ = False"
| "fl_lt NegInf NegInf = False"
| "fl_lt NegInf _ = True"

fun fl_le :: "pyfloat \<Rightarrow> pyfloat \<Rightarrow> bool" where
  "fl_le NaN _ = False"
| "fl_le _ NaN = False"
| "fl_le (Fin a) (Fin b) = (a \<le> b)"
| "fl_le (Fin _) PosInf = True"
| "fl_le (Fin _) NegInf = False"
| "fl_le PosInf PosInf = True"
| "fl_le PosInf _ = False"
| "fl_le NegInf _ = True"

text \<open>
  The builtins \<open>max(a, b)\<close> and \<open>min(a, b)\<close> keep the first argument unless the
  second is strictly greater (smaller).
\<close>

definition py_max :: "pyfloat \<Rightarrow> pyfloat \<Rightarrow> pyfloat" where
  "py_max a b = (if fl_lt a b then b else a)"

definition py_min :: "pyfloat \<Rightarrow> pyfloat \<Rightarrow> pyfloat" where
  "py_min a b = (if fl_lt b a then b else a)"

subsection \<open>Decoded JSON\<close>

text \<open>
  What \<open>response.json()\<close> returns. A dict is the list of its items in order; the keys
  of a JSON object are strings.
\<close>

datatype json =
    JNull
  | JBool bool
  | JInt int
  | JFloat pyfloat
  | JStr string
  | JList "json list"
  | JDict "(string \<times> json) list"

text \<open>Truthiness, as \<open>if not x\<close> tests it.\<close>

fun truthy :: "json \<Rightarrow> bool" where
  "truthy JNull = False"
| "truthy (JBool b) = b"
| "truthy (JInt i) = (i \<noteq> 0)"
| "truthy (JFloat f) = (f \<noteq> Fin 0)"
| "truthy (JStr s) = (s \<noteq> [])"
| "truthy (JList xs) = (xs \<noteq> [])"
| "truthy (JDict kvs) = (kvs \<noteq> [])"

text \<open>\<open>len(x)\<close>: a \<open>TypeError\<close> for a value without length.\<close>

fun py_len :: "json \<Rightarrow> exn + nat" where
  "py_len (JStr s) = Inr (length s)"
| "py_len (JList xs) = Inr (length xs)"
| "py_len (JDict kvs) = Inr (length kvs)"
| "py_len _ = Inl (TypeError ''object has no len()'')"

text \<open>\<open>d.get(k, default)\<close> on the items of a dict.\<close>

definition dict_get :: "(string \<times> json) list \<Rightarrow> string \<Rightarrow> json \<Rightarrow> json" where
  "dict_get kvs k dflt = (case map_of kvs k of None \<Rightarrow> dflt | Some v \<Rightarrow> v)"

subsection \<open>Library functions taken as given\<close>

text \<open>
  The parsers of the standard library and of \<open>dateutil\<close> are parameters of the model:
  \<open>float(s)\<close> and \<open>int(s)\<close> on a string, \<open>datetime.strptime(s, fmt)\<close> and
  \<open>dateutil.parser.parse(s)\<close>. \<open>None\<close> stands for the exception each of them raises
  on a string it rejects.
\<close>

record pylib =
  float_of_str :: "string \<Rightarrow> pyfloat option"
  int_of_str :: "string \<Rightarrow> int option"
  strptime :: "string \<Rightarrow> string \<Rightarrow> datetime option"
  dateutil_parse :: "string \<Rightarrow> datetime option"

text \<open>
  \<open>float(v)\<close> and \<open>int(v)\<close> on a decoded JSON value. The conversion of an integer
  to a float is taken to be exact; \<open>int\<close> truncates a float towards zero.
\<close>

fun py_float :: "pylib \<Rightarrow> json \<Rightarrow> exn + pyfloat" where
  "py_float lib (JFloat f) = Inr f"
| "py_float lib (JInt i) = Inr (Fin (of_int i))"
| "py_float lib (JBool b) = Inr (Fin (if b then 1 else 0))"
| "py_float lib (JStr s) =
     (case float_of_str lib s of
        None \<Rightarrow> Inl (ValueError ''could not convert string to float'')
      | Some f \<Rightarrow> Inr f)"
| "py_float lib _ = Inl (TypeError ''float() argument must be a string or a real number'')"

fun py_int :: "pylib \<Rightarrow> json \<Rightarrow> exn + int" where
  "py_int lib (JInt i) = Inr i"
| "py_int lib (JBool b) = Inr (if b then 1 else 0)"
| "py_int lib (JFloat (Fin q)) = Inr (if 0 \<le> q then \<lfloor>q\<rfloor> else \<lceil>q\<rceil>)"
| "py_int lib (JFloat NaN) = Inl (ValueError ''cannot convert float NaN to integer'')"
| "py_int lib (JFloat _) = Inl (OverflowError ''cannot convert float infinity to integer'')"
| "py_int lib (JStr s) =
     (case int_of_str lib s of
        None \<Rightarrow> Inl (ValueError ''invalid literal for int()'')
      | Some i \<Rightarrow> Inr i)"
| "py_int lib _ = Inl (TypeError ''int() argument must be a string or a real number'')"

section \<open>MODELS/models.py\<close>

text \<open>The constructors read the clock for \<open>created_at\<close> and \<open>updated_at\<close>.\<close>

record Stock =
  symbol :: string
  company_name :: string
  exchange :: string
  currency :: string
  is_active :: bool
  stock_created_at :: datetime
  stock_updated_at :: datetime

record StockPriceIntraday =
  stock_symbol :: string
  timestamp :: datetime
  open_price :: pyfloat
  high_price :: pyfloat
  low_price :: pyfloat
  close_price :: pyfloat
  volume :: int
  interval :: string

section \<open>ETL/transform.py\<close>

text \<open>
  The dict the extractor returns and the transformer reads. A key that is absent is
  \<open>None\<close>; the empty dict has no key at all.
\<close>

record raw_data =
  rd_symbol :: "string option"
  rd_interval :: "string option"
  rd_time_series :: "json option"
  rd_metadata :: "json option"

text \<open>
  The dict the transformer returns and the loader reads, with its \<open>'metadata'\<close> dict.
  The transformer fills every key; the loader accepts any dict.
\<close>

record td_metadata =
  md_symbol :: "string option"
  md_interval :: "string option"
  md_record_count :: "int option"
  md_transformation_timestamp :: "datetime option"
  md_api_metadata :: "json option"

record transformed_data =
  td_stock :: "Stock option"
  td_price_records :: "StockPriceIntraday list option"
  td_metadata :: "td_metadata option"

definition create_stock_object :: "datetime \<Rightarrow> string \<Rightarrow> json \<Rightarrow> Stock" where
  "create_stock_object utcnow sy metadata =
     \<lparr>symbol = sy, company_name = sy @ '' Stock'', exchange = ''NYSE'',
      currency = ''USD'', is_active = True,
      stock_created_at = utcnow, stock_updated_at = utcnow\<rparr>"

definition timestamp_formats :: "string list" where
  "timestamp_formats = [''%Y-%m-%d %H:%M:%S'', ''%Y-%m-%d %H:%M'', ''%Y-%m-%d'']"

fun try_formats :: "pylib \<Rightarrow> string \<Rightarrow> string list \<Rightarrow> datetime option" where
  "try_formats lib s [] = None"
| "try_formats lib s (fmt # fmts) =
     (case strptime lib s fmt of Some t \<Rightarrow> Some t | None \<Rightarrow> try_formats lib s fmts)"

definition parse_timestamp :: "pylib \<Rightarrow> string \<Rightarrow> exn + datetime" where
  "parse_timestamp lib timestamp_str =
     (case try_formats lib timestamp_str timestamp_formats of
        Some t \<Rightarrow> Inr t
      | None \<Rightarrow>
          (case dateutil_parse lib timestamp_str of
             Some t \<Rightarrow> Inr t
           | None \<Rightarrow> Inl (ValueError (''Invalid timestamp format: '' @ timestamp_str))))"

definition validate_price_data ::
  "pyfloat \<Rightarrow> pyfloat \<Rightarrow> pyfloat \<Rightarrow> pyfloat \<Rightarrow> int \<Rightarrow> bool" where
  "validate_price_data open_p high_p low_p close_p vol =
     (if list_ex (\<lambda>price. fl_le price (Fin 0)) [open_p, high_p, low_p, close_p] then False
      else if vol < 0 then False
      else if fl_lt high_p (py_max open_p close_p) then False
      else if fl_lt (py_min open_p close_p) low_p then False
      else if list_ex (\<lambda>price. fl_lt (Fin 1000000) price) [open_p, high_p, low_p, close_p]
        then False
      else True)"

text \<open>
  The body of the \<open>try\<close> in the loop of \<open>_create_price_objects\<close>, for one item of
  the time series: an exception, \<open>None\<close> for the \<open>continue\<close> after a failed
  validation, or the record to append.
\<close>

definition create_price_object ::
  "pylib \<Rightarrow> string \<Rightarrow> string \<Rightarrow> string \<Rightarrow> json \<Rightarrow> exn + StockPriceIntraday option" where
  "create_price_object lib sy ivl timestamp_str price_data =
     (case parse_timestamp lib timestamp_str of Inl e \<Rightarrow> Inl e | Inr ts \<Rightarrow>
      (case price_data of
         JDict flds \<Rightarrow>
           (case py_float lib (dict_get flds ''1. open'' (JInt 0)) of Inl e \<Rightarrow> Inl e | Inr open_p \<Rightarrow>
            (case py_float lib (dict_get flds ''2. high'' (JInt 0)) of Inl e \<Rightarrow> Inl e | Inr high_p \<Rightarrow>
             (case py_float lib (dict_get flds ''3. low'' (JInt 0)) of Inl e \<Rightarrow> Inl e | Inr low_p \<Rightarrow>
              (case py_float lib (dict_get flds ''4. close'' (JInt 0)) of Inl e \<Rightarrow> Inl e | Inr close_p \<Rightarrow>
               (case py_int lib (dict_get flds ''5. volume'' (JInt 0)) of Inl e \<Rightarrow> Inl e | Inr vol \<Rightarrow>
                  if \<not> validate_price_data open_p high_p low_p close_p vol then Inr None
                  else Inr (Some \<lparr>stock_symbol = sy, timestamp = ts,
                                   open_price = open_p, high_price = high_p,
                                   low_price = low_p, close_price = close_p,
                                   volume = vol, interval = ivl\<rparr>))))))
       | _ \<Rightarrow> Inl (AttributeError ''object has no attribute get'')))"

text \<open>The loop: both handlers \<open>continue\<close>, so an item that raises is skipped.\<close>

fun price_objects_loop ::
  "pylib \<Rightarrow> string \<Rightarrow> string \<Rightarrow> (string \<times> json) list \<Rightarrow> StockPriceIntraday list" where
  "price_objects_loop lib sy ivl [] = []"
| "price_objects_loop lib sy ivl ((timestamp_str, price_data) # items) =
     (case create_price_object lib sy ivl timestamp_str price_data of
        Inr (Some price_record) \<Rightarrow> price_record # price_objects_loop lib sy ivl items
      | _ \<Rightarrow> price_objects_loop lib sy ivl items)"

text \<open>\<open>time_series.items()\<close> is outside the loop's \<open>try\<close>: only a dict has it.\<close>

definition create_price_objects ::
  "pylib \<Rightarrow> string \<Rightarrow> json \<Rightarrow> string \<Rightarrow> exn + StockPriceIntraday list" where
  "create_price_objects lib sy time_series ivl =
     (case time_series of
        JDict items \<Rightarrow> Inr (price_objects_loop lib sy ivl items)
      | _ \<Rightarrow> Inl (AttributeError ''object has no attribute items''))"

text \<open>The body of the \<open>try\<close> of \<open>transform_intraday_data\<close>.\<close>

definition transform_body ::
  "pylib \<Rightarrow> datetime \<Rightarrow> raw_data \<Rightarrow> json \<Rightarrow> exn + transformed_data option" where
  "transform_body lib utcnow raw time_series =
     (case rd_symbol raw of None \<Rightarrow> Inl (KeyError ''symbol'') | Some sy \<Rightarrow>
      (case rd_interval raw of None \<Rightarrow> Inl (KeyError ''interval'') | Some ivl \<Rightarrow>
         let metadata = (case rd_metadata raw of None \<Rightarrow> JDict [] | Some m \<Rightarrow> m);
             stock = create_stock_object utcnow sy metadata
         in
         (case create_price_objects lib sy time_series ivl of Inl e \<Rightarrow> Inl e
          | Inr price_records \<Rightarrow>
              if price_records = [] then Inr None
              else Inr (Some
                \<lparr>td_stock = Some stock,
                 td_price_records = Some price_records,
                 td_metadata = Some
                   \<lparr>md_symbol = Some sy, md_interval = Some ivl,
                    md_record_count = Some (int (length price_records)),
                    md_transformation_timestamp = Some utcnow,
                    md_api_metadata = Some metadata\<rparr>\<rparr>))))"

text \<open>
  \<open>transform_intraday_data\<close>: \<open>None\<close> for a missing or empty dict and for one
  without \<open>'time_series'\<close>; the handler turns every exception of the body into
  \<open>None\<close>.
\<close>

definition transform_intraday_data ::
  "pylib \<Rightarrow> datetime \<Rightarrow> raw_data option \<Rightarrow> transformed_data option" where
  "transform_intraday_data lib utcnow raw_data =
     (case raw_data of None \<Rightarrow> None | Some raw \<Rightarrow>
      (case rd_time_series raw of None \<Rightarrow> None | Some time_series \<Rightarrow>
         (case transform_body lib utcnow raw time_series of
            Inl e \<Rightarrow> None
          | Inr result \<Rightarrow> result)))"

section \<open>ETL/extract.py\<close>

text \<open>
  What the request of \<open>extract_intraday_data\<close> comes to: a
  \<open>requests.exceptions.RequestException\<close> (connection failure, timeout, or the HTTP
  error status that \<open>raise_for_status\<close> raises), a body that is not JSON, or the
  decoded body. The network is a function of the requested symbol and interval. The
  waiting of \<open>_rate_limit\<close> changes no value and is left out.
\<close>

datatype http_result = RequestFailed | BadBody | Body json

text \<open>
  \<open>str.upper\<close> and \<open>datetime.isoformat\<close> are taken as given, like the parsers.
\<close>

record strlib =
  str_upper :: "string \<Rightarrow> string"
  isoformat :: "datetime \<Rightarrow> string"

text \<open>
  Every \<open>except\<close> clause returns \<open>None\<close>, and so does every test on a decoded body
  that is not a dict: \<open>in\<close> raises \<open>TypeError\<close> on a number, a boolean and
  \<open>None\<close>, and on a string or a list either the membership tests all fail, so that
  the series key is reported missing, or the subscript that follows one raises
  \<open>TypeError\<close>. The f-string of the success message takes \<open>len\<close> of the series,
  and the returned dict calls \<open>.get\<close> on the value under \<open>'Meta Data'\<close>.
\<close>

definition extract_intraday_data ::
  "strlib \<Rightarrow> (string \<Rightarrow> string \<Rightarrow> http_result) \<Rightarrow> datetime \<Rightarrow> string \<Rightarrow> string
     \<Rightarrow> raw_data option" where
  "extract_intraday_data sl network utcnow sy ivl =
     (case network (str_upper sl sy) ivl of
        RequestFailed \<Rightarrow> None
      | BadBody \<Rightarrow> None
      | Body data \<Rightarrow>
          (case data of
             JDict kvs \<Rightarrow>
               if map_of kvs ''Error Message'' \<noteq> None then None
               else if map_of kvs ''Note'' \<noteq> None then None
               else
                 (case map_of kvs (''Time Series ('' @ ivl @ '')'') of
                    None \<Rightarrow> None
                  | Some time_series_data \<Rightarrow>
                      if \<not> truthy time_series_data then None
                      else
                        (case py_len time_series_data of
                           Inl e \<Rightarrow> None
                         | Inr n \<Rightarrow>
                             (case dict_get kvs ''Meta Data'' (JDict []) of
                                JDict meta \<Rightarrow>
                                  Some \<lparr>rd_symbol = Some (str_upper sl sy),
                                        rd_interval = Some ivl,
                                        rd_time_series = Some time_series_data,
                                        rd_metadata = Some (JDict
                                          [(''last_refreshed'',
                                              dict_get meta ''3. Last Refreshed'' (JStr '''')),
                                           (''timezone'',
                                              dict_get meta ''6. Time Zone'' (JStr '''')),
                                           (''extraction_timestamp'',
                                              JStr (isoformat sl utcnow))])\<rparr>
                              | _ \<Rightarrow> None)))
           | _ \<Rightarrow> None))"

section \<open>DB/database.py\<close>

text \<open>
  The three tables of \<open>create_tables\<close>, as lists of rows in insertion order, without
  the serial \<open>id\<close> columns. A price column is \<open>DECIMAL(10,4)\<close>: it holds a decimal
  number or NaN, not the float that was sent.
\<close>

datatype numeric = Numeric rat | NumericNaN

record stock_row =
  sr_symbol :: string
  sr_company_name :: string
  sr_exchange :: string
  sr_is_active :: bool
  sr_created_at :: datetime
  sr_updated_at :: datetime

record price_row =
  pr_stock_symbol :: string
  pr_timestamp :: datetime
  pr_open_price :: numeric
  pr_high_price :: numeric
  pr_low_price :: numeric
  pr_close_price :: numeric
  pr_volume :: int
  pr_interval :: string
  pr_created_at :: datetime
  pr_updated_at :: datetime

record log_row =
  lg_job_name :: string
  lg_status :: string
  lg_start_time :: datetime
  lg_end_time :: datetime
  lg_records_processed :: int
  lg_total_records :: int
  lg_error_message :: "string option"
  lg_created_at :: datetime

text \<open>
  The state the loader and the pipeline act on: whether the connection pool is
  initialised, the tables, and the reading of the clock of the process. The rest is the
  database engine as the process meets it:
  \<^item> \<open>faults\<close> says for each coming database operation whether the engine or the
    connection fails on it, and with which message; past the end of the list nothing
    fails;
  \<^item> \<open>decimal_10_4\<close> is the value a \<open>DECIMAL(10,4)\<close> column takes for a float
    parameter (the rounding of the decimal text the driver sends), \<open>None\<close> where the
    engine refuses the value;
  \<^item> \<open>current_timestamp\<close> is the engine's \<open>CURRENT_TIMESTAMP\<close>, the default of
    the \<open>updated_at\<close> columns.
  The price table has a foreign key to \<open>stocks(symbol)\<close> and no uniqueness
  constraint; the foreign key is checked by the insert below.
\<close>

record world =
  connection_pool :: bool
  faults :: "string option list"
  decimal_10_4 :: "pyfloat \<Rightarrow> numeric option"
  current_timestamp :: datetime
  stocks :: "stock_row list"
  stock_prices_intraday :: "price_row list"
  etl_job_logs :: "log_row list"
  clock :: datetime

definition init_connection_pool :: "world \<Rightarrow> (exn + unit) \<times> world" where
  "init_connection_pool w =
     (case faults w of
        Some msg # fs \<Rightarrow> (Inl (DatabaseError msg), w\<lparr>faults := fs\<rparr>)
      | None # fs \<Rightarrow> (Inr (), w\<lparr>faults := fs, connection_pool := True\<rparr>)
      | [] \<Rightarrow> (Inr (), w\<lparr>connection_pool := True\<rparr>))"

text \<open>
  A statement either is refused by the engine or returns a result and a new state.
  \<open>execute_query\<close>: \<open>get_connection\<close> raises without a pool; a statement that
  raises is rolled back and the exception raised again; otherwise the statement takes
  effect and is committed.
\<close>

type_synonym 'r statement = "world \<Rightarrow> exn + 'r \<times> world"

definition run_statement :: "'r statement \<Rightarrow> world \<Rightarrow> (exn + 'r) \<times> world" where
  "run_statement stmt w =
     (case stmt w of Inl e \<Rightarrow> (Inl e, w) | Inr (r, w') \<Rightarrow> (Inr r, w'))"

definition execute_query :: "'r statement \<Rightarrow> world \<Rightarrow> (exn + 'r) \<times> world" where
  "execute_query stmt w =
     (if \<not> connection_pool w
        then (Inl (Exception ''Database connection pool not initialized''), w)
      else
        (case faults w of
           Some msg # fs \<Rightarrow> (Inl (DatabaseError msg), w\<lparr>faults := fs\<rparr>)
         | None # fs \<Rightarrow> run_statement stmt (w\<lparr>faults := fs\<rparr>)
         | [] \<Rightarrow> run_statement stmt w))"

text \<open>
  What the driver and the columns do with a parameter. The driver raises
  \<open>ValueError\<close> for a string with a NUL character. A \<open>VARCHAR(n)\<close> column takes
  a string of at most \<open>n\<close> characters as it is, a longer one cut to \<open>n\<close>
  characters when only spaces are cut off, and no other. A \<open>BIGINT\<close> column takes
  64-bit integers and an \<open>INTEGER\<close> column 32-bit ones.
\<close>

definition adapted :: "string list \<Rightarrow> bool" where
  "adapted params = list_all (\<lambda>s. CHR 0x00 \<notin> set s) params"

definition nul_error :: exn where
  "nul_error = ValueError ''A string literal cannot contain NUL (0x00) characters.''"

definition varchar :: "nat \<Rightarrow> string \<Rightarrow> string option" where
  "varchar n s =
     (if length s \<le> n then Some s
      else if list_all (\<lambda>c. c = CHR 0x20) (drop n s) then Some (take n s)
      else None)"

definition bigint :: "int \<Rightarrow> bool" where
  "bigint v = (- (2 ^ 63) \<le> v \<and> v < 2 ^ 63)"

definition integer_column :: "int \<Rightarrow> bool" where
  "integer_column v = (- (2 ^ 31) \<le> v \<and> v < 2 ^ 31)"

text \<open>
  The statements of the loader. The insert into \<open>stocks\<close> names a column
  \<open>name\<close>; the table has \<open>company_name\<close>, so the engine refuses the statement.
  The insert of a price is refused without a row of \<open>stocks\<close> for its symbol, and a
  value that its column cannot take is refused by the insert and by the update.
\<close>

definition select_stock :: "string \<Rightarrow> stock_row option statement" where
  "select_stock sy w =
     (if \<not> adapted [sy] then Inl nul_error
      else Inr (find (\<lambda>r. sr_symbol r = sy) (stocks w), w))"

definition insert_stock :: "unit statement" where
  "insert_stock w = Inl (DatabaseError ''column name of relation stocks does not exist'')"

definition same_key :: "string \<Rightarrow> datetime \<Rightarrow> string \<Rightarrow> price_row \<Rightarrow> bool" where
  "same_key sy ts ivl r = (pr_stock_symbol r = sy \<and> pr_timestamp r = ts \<and> pr_interval r = ivl)"

definition select_price :: "string \<Rightarrow> datetime \<Rightarrow> string \<Rightarrow> price_row option statement" where
  "select_price sy ts ivl w =
     (if \<not> adapted [sy, ivl] then Inl nul_error
      else Inr (find (same_key sy ts ivl) (stock_prices_intraday w), w))"

text \<open>The four prices of a record as the columns take them.\<close>

definition stored_prices ::
  "world \<Rightarrow> StockPriceIntraday \<Rightarrow> (numeric \<times> numeric \<times> numeric \<times> numeric) option" where
  "stored_prices w p =
     (case decimal_10_4 w (open_price p) of None \<Rightarrow> None | Some o_n \<Rightarrow>
      (case decimal_10_4 w (high_price p) of None \<Rightarrow> None | Some h_n \<Rightarrow>
       (case decimal_10_4 w (low_price p) of None \<Rightarrow> None | Some l_n \<Rightarrow>
        (case decimal_10_4 w (close_price p) of None \<Rightarrow> None | Some c_n \<Rightarrow>
           Some (o_n, h_n, l_n, c_n)))))"

definition updated_rows ::
  "numeric \<times> numeric \<times> numeric \<times> numeric \<Rightarrow> StockPriceIntraday \<Rightarrow> datetime
     \<Rightarrow> price_row list \<Rightarrow> price_row list" where
  "updated_rows ns p now rows =
     (case ns of (o_n, h_n, l_n, c_n) \<Rightarrow>
        map (\<lambda>r. if same_key (stock_symbol p) (timestamp p) (interval p) r
                  then r\<lparr>pr_open_price := o_n, pr_high_price := h_n,
                         pr_low_price := l_n, pr_close_price := c_n,
                         pr_volume := volume p, pr_updated_at := now\<rparr>
                  else r) rows)"

definition update_price :: "StockPriceIntraday \<Rightarrow> datetime \<Rightarrow> unit statement" where
  "update_price p now w =
     (if \<not> adapted [stock_symbol p, interval p] then Inl nul_error
      else if \<not> bigint (volume p) then Inl (DatabaseError ''bigint out of range'')
      else
        (case stored_prices w p of
           None \<Rightarrow> Inl (DatabaseError ''numeric field overflow'')
         | Some ns \<Rightarrow>
             Inr ((), w\<lparr>stock_prices_intraday :=
                          updated_rows ns p now (stock_prices_intraday w)\<rparr>)))"

text \<open>The symbol and the interval of a record as the columns take them.\<close>

definition stored_key :: "StockPriceIntraday \<Rightarrow> (string \<times> string) option" where
  "stored_key p =
     (case varchar 10 (stock_symbol p) of None \<Rightarrow> None | Some sy \<Rightarrow>
      (case varchar 10 (interval p) of None \<Rightarrow> None | Some ivl \<Rightarrow> Some (sy, ivl)))"

definition inserted_row ::
  "string \<times> string \<Rightarrow> numeric \<times> numeric \<times> numeric \<times> numeric \<Rightarrow> StockPriceIntraday
     \<Rightarrow> datetime \<Rightarrow> datetime \<Rightarrow> price_row" where
  "inserted_row k ns p now db_now =
     (case (k, ns) of ((sy, ivl), (o_n, h_n, l_n, c_n)) \<Rightarrow>
        \<lparr>pr_stock_symbol = sy, pr_timestamp = timestamp p,
         pr_open_price = o_n, pr_high_price = h_n,
         pr_low_price = l_n, pr_close_price = c_n,
         pr_volume = volume p, pr_interval = ivl,
         pr_created_at = now, pr_updated_at = db_now\<rparr>)"

definition insert_price :: "StockPriceIntraday \<Rightarrow> datetime \<Rightarrow> unit statement" where
  "insert_price p now w =
     (if \<not> adapted [stock_symbol p, interval p] then Inl nul_error
      else
        (case stored_key p of
           None \<Rightarrow> Inl (DatabaseError ''value too long for type character varying(10)'')
         | Some k \<Rightarrow>
             if \<not> bigint (volume p) then Inl (DatabaseError ''bigint out of range'')
             else
               (case stored_prices w p of
                  None \<Rightarrow> Inl (DatabaseError ''numeric field overflow'')
                | Some ns \<Rightarrow>
                    if \<not> list_ex (\<lambda>s. sr_symbol s = fst k) (stocks w)
                      then Inl (DatabaseError ''violates foreign key constraint'')
                    else
                      Inr ((), w\<lparr>stock_prices_intraday := stock_prices_intraday w @
                                   [inserted_row k ns p now (current_timestamp w)]\<rparr>))))"

text \<open>
  The insert into \<open>etl_job_logs\<close>: \<open>job_name\<close> is \<open>VARCHAR(255)\<close>,
  \<open>status\<close> is \<open>VARCHAR(20)\<close>, the two counts are \<open>INTEGER\<close>.
\<close>

definition insert_log :: "log_row \<Rightarrow> unit statement" where
  "insert_log row w =
     (if \<not> adapted ([lg_job_name row, lg_status row]
                       @ (case lg_error_message row of None \<Rightarrow> [] | Some msg \<Rightarrow> [msg]))
        then Inl nul_error
      else
        (case varchar 255 (lg_job_name row) of
           None \<Rightarrow> Inl (DatabaseError ''value too long for type character varying(255)'')
         | Some job_name \<Rightarrow>
             (case varchar 20 (lg_status row) of
                None \<Rightarrow> Inl (DatabaseError ''value too long for type character varying(20)'')
              | Some status \<Rightarrow>
                  if \<not> integer_column (lg_records_processed row)
                     \<or> \<not> integer_column (lg_total_records row)
                    then Inl (DatabaseError ''integer out of range'')
                  else
                    Inr ((), w\<lparr>etl_job_logs := etl_job_logs w @
                                 [row\<lparr>lg_job_name := job_name, lg_status := status\<rparr>]\<rparr>))))"

section \<open>app/load.py\<close>

text \<open>
  \<open>load_stock\<close>. When the stock is not yet there, the tuple of parameters of the
  insert is built from \<open>stock.name\<close>. The class \<open>Stock\<close> has no such attribute
  (its field is \<open>company_name\<close>), so this raises \<open>AttributeError\<close>, which the
  handler turns into \<open>False\<close> before the insert is reached.
\<close>

definition stock_name :: "Stock \<Rightarrow> exn + string" where
  "stock_name stock =
     Inl (AttributeError (quoted ''Stock'' @ '' object has no attribute '' @ quoted ''name''))"

definition load_stock :: "Stock \<Rightarrow> world \<Rightarrow> bool \<times> world" where
  "load_stock stock w =
     (case execute_query (select_stock (symbol stock)) w of
        (Inl e, w1) \<Rightarrow> (False, w1)
      | (Inr existing_stock, w1) \<Rightarrow>
          if existing_stock \<noteq> None then (True, w1)
          else
            (case stock_name stock of
               Inl e \<Rightarrow> (False, w1)
             | Inr nm \<Rightarrow>
                 (case execute_query insert_stock w1 of
                    (Inl e, w2) \<Rightarrow> (False, w2)
                  | (Inr u, w2) \<Rightarrow> (True, w2))))"

definition load_single_price_record :: "StockPriceIntraday \<Rightarrow> world \<Rightarrow> bool \<times> world" where
  "load_single_price_record price_record w =
     (case execute_query
             (select_price (stock_symbol price_record) (timestamp price_record)
                (interval price_record)) w of
        (Inl e, w1) \<Rightarrow> (False, w1)
      | (Inr existing_record, w1) \<Rightarrow>
          if existing_record \<noteq> None then
            (case execute_query (update_price price_record (clock w1)) w1 of
               (Inl e, w2) \<Rightarrow> (False, w2)
             | (Inr u, w2) \<Rightarrow> (True, w2))
          else
            (case execute_query (insert_price price_record (clock w1)) w1 of
               (Inl e, w2) \<Rightarrow> (False, w2)
             | (Inr u, w2) \<Rightarrow> (True, w2)))"

fun load_prices_loop :: "StockPriceIntraday list \<Rightarrow> int \<Rightarrow> world \<Rightarrow> int \<times> world" where
  "load_prices_loop [] loaded_count w = (loaded_count, w)"
| "load_prices_loop (price_record # rest) loaded_count w =
     (case load_single_price_record price_record w of
        (True, w1) \<Rightarrow> load_prices_loop rest (loaded_count + 1) w1
      | (False, w1) \<Rightarrow> load_prices_loop rest loaded_count w1)"

definition load_intraday_prices ::
  "string \<Rightarrow> StockPriceIntraday list \<Rightarrow> world \<Rightarrow> int \<times> world" where
  "load_intraday_prices sy price_records w =
     (if price_records = [] then (0, w) else load_prices_loop price_records 0 w)"

text \<open>\<open>_log_etl_job\<close>: the handler swallows a failure of the insert.\<close>

definition log_etl_job ::
  "string \<Rightarrow> int \<Rightarrow> int \<Rightarrow> string \<Rightarrow> string option \<Rightarrow> world \<Rightarrow> world" where
  "log_etl_job sy total_records processed_records status error_message w =
     snd (execute_query
            (insert_log \<lparr>lg_job_name = ''intraday_etl_'' @ sy, lg_status = status,
                         lg_start_time = clock w, lg_end_time = clock w,
                         lg_records_processed = processed_records,
                         lg_total_records = total_records,
                         lg_error_message = error_message, lg_created_at = clock w\<rparr>) w)"

text \<open>The dict \<open>load_transformed_data\<close> returns; a key it does not set is \<open>None\<close>.\<close>

record loading_result =
  lr_success :: "bool option"
  lr_symbol :: "string option"
  lr_error :: "string option"
  lr_stock_loaded :: "bool option"
  lr_prices_loaded :: "int option"
  lr_total_price_records :: "int option"
  lr_loading_timestamp :: "datetime option"

definition no_result :: loading_result where
  "no_result = \<lparr>lr_success = None, lr_symbol = None, lr_error = None, lr_stock_loaded = None,
                 lr_prices_loaded = None, lr_total_price_records = None,
                 lr_loading_timestamp = None\<rparr>"

text \<open>An empty dict: \<open>if not transformed_data\<close>.\<close>

definition td_empty :: "transformed_data \<Rightarrow> bool" where
  "td_empty td = (td_stock td = None \<and> td_price_records td = None \<and> td_metadata td = None)"

text \<open>
  The body of the \<open>try\<close> of \<open>load_transformed_data\<close>: the subscripts raise
  \<open>KeyError\<close> on a missing key; the return after a failed \<open>load_stock\<close> comes before
  the call of \<open>_log_etl_job\<close>.
\<close>

definition load_transformed_body ::
  "transformed_data \<Rightarrow> world \<Rightarrow> (exn + loading_result) \<times> world" where
  "load_transformed_body td w =
     (case td_metadata td of None \<Rightarrow> (Inl (KeyError ''metadata''), w) | Some md \<Rightarrow>
      (case md_symbol md of None \<Rightarrow> (Inl (KeyError ''symbol''), w) | Some sy \<Rightarrow>
       (case td_stock td of None \<Rightarrow> (Inl (KeyError ''stock''), w) | Some stock \<Rightarrow>
        (case td_price_records td of None \<Rightarrow> (Inl (KeyError ''price_records''), w)
         | Some price_records \<Rightarrow>
           (case load_stock stock w of
              (False, w1) \<Rightarrow>
                (Inr (no_result\<lparr>lr_success := Some False, lr_symbol := Some sy,
                        lr_error := Some ''Failed to load stock information''\<rparr>), w1)
            | (True, w1) \<Rightarrow>
                (case load_intraday_prices sy price_records w1 of
                   (prices_loaded, w2) \<Rightarrow>
                     let w3 = log_etl_job sy (int (length price_records)) prices_loaded
                                ''SUCCESS'' None w2
                     in (Inr (no_result\<lparr>lr_success := Some True, lr_symbol := Some sy,
                                lr_stock_loaded := Some True,
                                lr_prices_loaded := Some prices_loaded,
                                lr_total_price_records := Some (int (length price_records)),
                                lr_loading_timestamp := Some (clock w3)\<rparr>), w3)))))))"

definition load_transformed_data ::
  "transformed_data option \<Rightarrow> world \<Rightarrow> loading_result \<times> world" where
  "load_transformed_data transformed w =
     (case transformed of
        None \<Rightarrow> (no_result\<lparr>lr_success := Some False, lr_error := Some ''No transformed data''\<rparr>, w)
      | Some td \<Rightarrow>
          if td_empty td
            then (no_result\<lparr>lr_success := Some False, lr_error := Some ''No transformed data''\<rparr>, w)
          else
            (case load_transformed_body td w of
               (Inr result, w1) \<Rightarrow> (result, w1)
             | (Inl e, w1) \<Rightarrow>
                 let sy = (case td_metadata td of None \<Rightarrow> ''unknown''
                           | Some md \<Rightarrow> (case md_symbol md of None \<Rightarrow> ''unknown'' | Some s \<Rightarrow> s));
                     w2 = log_etl_job sy 0 0 ''FAILED'' (Some (exn_str e)) w1
                 in (no_result\<lparr>lr_success := Some False, lr_symbol := Some sy,
                        lr_error := Some (exn_str e)\<rparr>, w2)))"

section \<open>intraday\_pipeline.py\<close>

text \<open>
  The service calls its three components through \<open>self.extractor\<close>,
  \<open>self.transformer\<close> and \<open>self.loader\<close>. The orchestration is modelled for any
  components: each may change the state, and each may raise.
\<close>

record etl_components =
  extractor :: "string \<Rightarrow> string \<Rightarrow> world \<Rightarrow> (exn + raw_data option) \<times> world"
  transformer :: "raw_data \<Rightarrow> world \<Rightarrow> (exn + transformed_data option) \<times> world"
  loader :: "transformed_data \<Rightarrow> world \<Rightarrow> (exn + loading_result) \<times> world"

definition ensure_db_connection :: "world \<Rightarrow> (exn + unit) \<times> world" where
  "ensure_db_connection w =
     (if \<not> connection_pool w then init_connection_pool w else (Inr (), w))"

text \<open>An empty dict: \<open>if not raw_data\<close>.\<close>

definition raw_empty :: "raw_data \<Rightarrow> bool" where
  "raw_empty raw = (rd_symbol raw = None \<and> rd_interval raw = None
                     \<and> rd_time_series raw = None \<and> rd_metadata raw = None)"

text \<open>The body of the \<open>try\<close> of \<open>process_stock_intraday\<close>.\<close>

definition process_stock_body ::
  "etl_components \<Rightarrow> string \<Rightarrow> string \<Rightarrow> world \<Rightarrow> (exn + int) \<times> world" where
  "process_stock_body svc sy ivl w =
     (case ensure_db_connection w of (Inl e, w0) \<Rightarrow> (Inl e, w0) | (Inr u, w0) \<Rightarrow>
      (case extractor svc sy ivl w0 of (Inl e, w1) \<Rightarrow> (Inl e, w1) | (Inr raw_data, w1) \<Rightarrow>
         let extraction_failed =
               (Inr 0, log_etl_job sy 0 0 ''FAILED'' (Some ''Extraction failed'') w1)
         in
         (case raw_data of None \<Rightarrow> extraction_failed | Some raw \<Rightarrow>
            if raw_empty raw then extraction_failed
            else
             (case transformer svc raw w1 of (Inl e, w2) \<Rightarrow> (Inl e, w2)
              | (Inr transformed, w2) \<Rightarrow>
                  let transformation_failed =
                        (Inr 0, log_etl_job sy 0 0 ''FAILED''
                                  (Some ''Transformation failed'') w2)
                  in
                  (case transformed of None \<Rightarrow> transformation_failed | Some td \<Rightarrow>
                     if td_empty td then transformation_failed
                     else
                      (case loader svc td w2 of (Inl e, w3) \<Rightarrow> (Inl e, w3)
                       | (Inr loading_result, w3) \<Rightarrow>
                           if lr_success loading_result \<noteq> Some True then (Inr 0, w3)
                           else
                             (Inr (case lr_prices_loaded loading_result of
                                     None \<Rightarrow> 0 | Some n \<Rightarrow> n), w3)))))))"

text \<open>
  \<open>process_stock_intraday\<close>: the handler logs a failed job and returns 0. The result
  keeps the shape of a call that may raise, for the \<open>try\<close> of the caller.
\<close>

definition process_stock_intraday ::
  "etl_components \<Rightarrow> string \<Rightarrow> string \<Rightarrow> world \<Rightarrow> (exn + int) \<times> world" where
  "process_stock_intraday svc sy ivl w =
     (case process_stock_body svc sy ivl w of
        (Inr records_processed, w1) \<Rightarrow> (Inr records_processed, w1)
      | (Inl e, w1) \<Rightarrow> (Inr 0, log_etl_job sy 0 0 ''FAILED'' (Some (exn_str e)) w1))"

fun process_multiple_loop ::
  "etl_components \<Rightarrow> string \<Rightarrow> string list \<Rightarrow> (string \<rightharpoonup> int) \<Rightarrow> world
     \<Rightarrow> (string \<rightharpoonup> int) \<times> world" where
  "process_multiple_loop svc ivl [] results w = (results, w)"
| "process_multiple_loop svc ivl (sy # rest) results w =
     (case process_stock_intraday svc sy ivl w of
        (Inr records_processed, w1) \<Rightarrow>
          process_multiple_loop svc ivl rest (results(sy \<mapsto> records_processed)) w1
      | (Inl e, w1) \<Rightarrow>
          process_multiple_loop svc ivl rest (results(sy \<mapsto> 0)) w1)"

definition process_multiple_stocks_intraday ::
  "etl_components \<Rightarrow> string list \<Rightarrow> string \<Rightarrow> world \<Rightarrow> (string \<rightharpoonup> int) \<times> world" where
  "process_multiple_stocks_intraday svc syms ivl w =
     process_multiple_loop svc ivl syms Map.empty w"

text \<open>
  The service as \<open>ETLService.__init__\<close> builds it, over a network: the extractor and
  the transformer of the sources (neither raises, neither writes) and the loader.
\<close>

definition etl_service ::
  "pylib \<Rightarrow> strlib \<Rightarrow> (string \<Rightarrow> string \<Rightarrow> http_result) \<Rightarrow> etl_components" where
  "etl_service lib sl network =
     \<lparr>extractor = (\<lambda>sy ivl w. (Inr (extract_intraday_data sl network (clock w) sy ivl), w)),
      transformer = (\<lambda>raw w. (Inr (transform_intraday_data lib (clock w) (Some raw)), w)),
      loader = (\<lambda>td w. case load_transformed_data (Some td) w of (r, w1) \<Rightarrow> (Inr r, w1))\<rparr>"

section \<open>market\_scheduler.py\<close>

record MarketSchedule =
  open_hour :: int
  close_hour :: int
  pre_market_start :: int
  after_hours_end :: int
  timezone :: string
  trading_days :: "int list"

text \<open>The dataclass defaults, after \<open>__post_init__\<close> has filled in Monday to Friday.\<close>

definition default_MarketSchedule :: MarketSchedule where
  "default_MarketSchedule =
     \<lparr>open_hour = 9, close_hour = 16, pre_market_start = 4, after_hours_end = 20,
      timezone = ''UTC'', trading_days = [0, 1, 2, 3, 4]\<rparr>"

text \<open>
  The three predicates take the schedule, the value \<open>datetime.utcnow()\<close> would return,
  and the optional \<open>current_time\<close> argument.
\<close>

definition is_market_open :: "MarketSchedule \<Rightarrow> datetime \<Rightarrow> datetime option \<Rightarrow> bool" where
  "is_market_open ms utcnow current_time =
     (let ct = (case current_time of None \<Rightarrow> utcnow | Some t \<Rightarrow> t) in
      if weekday ct \<notin> set (trading_days ms) then False
      else open_hour ms \<le> hour ct \<and> hour ct < close_hour ms)"

definition is_pre_market :: "MarketSchedule \<Rightarrow> datetime \<Rightarrow> datetime option \<Rightarrow> bool" where
  "is_pre_market ms utcnow current_time =
     (let ct = (case current_time of None \<Rightarrow> utcnow | Some t \<Rightarrow> t) in
      if weekday ct \<notin> set (trading_days ms) then False
      else pre_market_start ms \<le> hour ct \<and> hour ct < open_hour ms)"

definition is_after_hours :: "MarketSchedule \<Rightarrow> datetime \<Rightarrow> datetime option \<Rightarrow> bool" where
  "is_after_hours ms utcnow current_time =
     (let ct = (case current_time of None \<Rightarrow> utcnow | Some t \<Rightarrow> t) in
      if weekday ct \<notin> set (trading_days ms) then False
      else close_hour ms \<le> hour ct \<and> hour ct < after_hours_end ms)"

text \<open>
  The \<open>while True\<close> scan of \<open>get_next_market_open\<close>: add a day, stop at a trading day.
  It ends for every schedule, because the date arithmetic raises at the end of the
  calendar.
\<close>

function find_next_trading_day :: "int list \<Rightarrow> datetime \<Rightarrow> exn + datetime" where
  "find_next_trading_day tds d =
     (case add_one_day d of
        Inl e \<Rightarrow> Inl e
      | Inr d' \<Rightarrow> if weekday d' \<in> set tds then Inr d' else find_next_trading_day tds d')"
  by pat_completeness auto
termination
  by (relation "measure (\<lambda>(tds, d). nat (MAXORDINAL - ordinal d))")
     (auto simp: add_one_day_def split: if_splits)

declare find_next_trading_day.simps [simp del]

definition get_next_market_open ::
  "MarketSchedule \<Rightarrow> datetime \<Rightarrow> datetime option \<Rightarrow> exn + datetime" where
  "get_next_market_open ms utcnow current_time =
     (let ct = (case current_time of None \<Rightarrow> utcnow | Some t \<Rightarrow> t);
          scan = (case find_next_trading_day (trading_days ms) ct of
                    Inl e \<Rightarrow> Inl e
                  | Inr next_trading_day \<Rightarrow> replace_hour next_trading_day (open_hour ms))
      in
      if weekday ct \<in> set (trading_days ms) then
        (case replace_hour ct (open_hour ms) of
           Inl e \<Rightarrow> Inl e
         | Inr today_open \<Rightarrow> if dt_less ct today_open then Inr today_open else scan)
      else scan)"

text \<open>
  A registration as \<open>schedule_market_hours_job\<close> stores it. The callback is any value
  of the caller's.
\<close>

record 'cb job_config =
  name :: string
  symbols :: "string list"
  interval_minutes :: int
  callback :: "'cb option"
  job_type :: string
  created_at :: datetime

record 'cb MarketScheduler =
  market_schedule :: MarketSchedule
  is_running :: bool
  scheduled_jobs :: "string \<rightharpoonup> 'cb job_config"

definition schedule_market_hours_job ::
  "'cb MarketScheduler \<Rightarrow> datetime \<Rightarrow> string \<Rightarrow> string list \<Rightarrow> int \<Rightarrow> 'cb option
     \<Rightarrow> bool \<times> 'cb MarketScheduler" where
  "schedule_market_hours_job self utcnow job_name syms ivl cb =
     (if job_name \<in> dom (scheduled_jobs self) then (False, self)
      else
        let job_cfg = \<lparr>name = job_name, symbols = syms, interval_minutes = ivl,
                        callback = cb, job_type = ''market_hours'', created_at = utcnow\<rparr>
        in (True, self\<lparr>scheduled_jobs := (scheduled_jobs self)(job_name \<mapsto> job_cfg)\<rparr>))"

definition schedule_pre_market_job ::
  "'cb MarketScheduler \<Rightarrow> datetime \<Rightarrow> string \<Rightarrow> string list \<Rightarrow> int \<Rightarrow> 'cb option
     \<Rightarrow> bool \<times> 'cb MarketScheduler" where
  "schedule_pre_market_job self utcnow job_name syms ivl cb =
     (if job_name \<in> dom (scheduled_jobs self) then (False, self)
      else
        let job_cfg = \<lparr>name = job_name, symbols = syms, interval_minutes = ivl,
                        callback = cb, job_type = ''pre_market'', created_at = utcnow\<rparr>
        in (True, self\<lparr>scheduled_jobs := (scheduled_jobs self)(job_name \<mapsto> job_cfg)\<rparr>))"

definition schedule_after_hours_job ::
  "'cb MarketScheduler \<Rightarrow> datetime \<Rightarrow> string \<Rightarrow> string list \<Rightarrow> int \<Rightarrow> 'cb option
     \<Rightarrow> bool \<times> 'cb MarketScheduler" where
  "schedule_after_hours_job self utcnow job_name syms ivl cb =
     (if job_name \<in> dom (scheduled_jobs self) then (False, self)
      else
        let job_cfg = \<lparr>name = job_name, symbols = syms, interval_minutes = ivl,
                        callback = cb, job_type = ''after_hours'', created_at = utcnow\<rparr>
        in (True, self\<lparr>scheduled_jobs := (scheduled_jobs self)(job_name \<mapsto> job_cfg)\<rparr>))"

section \<open>STREAM\_N\_POLLING/streaming\_service.py\<close>

text \<open>
  The worker thread sees the other threads only through \<open>stop_event\<close>. Its calls of
  \<open>is_set()\<close> are numbered from 0, and \<open>stop_at\<close> is the number of the first call that
  finds the event set; the event then stays set. \<open>None\<close>: it is never set.
\<close>

definition is_set :: "nat option \<Rightarrow> nat \<Rightarrow> bool" where
  "is_set stop_at poll = (case stop_at of None \<Rightarrow> False | Some k \<Rightarrow> k \<le> poll)"

text \<open>
  \<open>max_iterations and iteration >= max_iterations\<close>: \<open>None\<close> and 0 are both false
  for \<open>and\<close>.
\<close>

definition cap_reached :: "int option \<Rightarrow> int \<Rightarrow> bool" where
  "cap_reached max_iterations iteration =
     (case max_iterations of None \<Rightarrow> False | Some n \<Rightarrow> n \<noteq> 0 \<and> iteration \<ge> n)"

text \<open>
  The wait before the next cycle, one poll and one second at a time:
  \<open>for _ in range(wait_seconds): if is_set(): break; sleep(1)\<close>. The result is the
  number of polls made so far.
\<close>

fun wait_loop :: "nat option \<Rightarrow> nat \<Rightarrow> nat \<Rightarrow> nat" where
  "wait_loop stop_at 0 poll = poll"
| "wait_loop stop_at (Suc n) poll =
     (if is_set stop_at poll then Suc poll else wait_loop stop_at n (Suc poll))"

record worker_state =
  iteration :: int
  polls :: nat
  ws_world :: world

text \<open>
  One cycle: the batch, then the callback, whose exception is caught and logged.
  The callback is a function of the caller's on the iteration number, the results and the
  state.
\<close>

type_synonym stream_callback = "int \<Rightarrow> (string \<rightharpoonup> int) \<Rightarrow> world \<Rightarrow> (exn + unit) \<times> world"

definition streaming_cycle ::
  "etl_components \<Rightarrow> string list \<Rightarrow> stream_callback option \<Rightarrow> int \<Rightarrow> world \<Rightarrow> world" where
  "streaming_cycle svc syms cb it w =
     (case process_multiple_stocks_intraday svc syms ''5min'' w of
        (results, w1) \<Rightarrow>
          (case cb of None \<Rightarrow> w1 | Some f \<Rightarrow> snd (f it results w1)))"

text \<open>
  \<open>next_run = start_time + timedelta(minutes=interval_minutes)\<close>. The
  \<open>timedelta\<close> raises \<open>OverflowError\<close> when its whole days exceed 999999999 in
  magnitude, and the sum when its date leaves the calendar.
\<close>

definition next_run_time :: "datetime \<Rightarrow> int \<Rightarrow> exn + datetime" where
  "next_run_time start_time interval_mins =
     (if 999999999 < \<bar>interval_mins div 1440\<bar>
        then Inl (OverflowError ''days out of range for timedelta'')
      else
        let total = hour start_time * 60 + minute start_time + interval_mins;
            day = ordinal start_time + total div 1440
        in if 1 \<le> day \<and> day \<le> MAXORDINAL
           then Inr (start_time\<lparr>ordinal := day, hour := (total mod 1440) div 60,
                                 minute := total mod 60\<rparr>)
           else Inl (OverflowError ''date value out of range''))"

text \<open>
  The \<open>while not self.stop_event.is_set()\<close> loop of \<open>_streaming_worker\<close>, with
  the handler around it. \<open>utcnow_at i\<close> is the reading of the clock that the worker
  takes as \<open>start_time\<close> of cycle \<open>i\<close>. The computation of \<open>next_run\<close> stands
  outside the \<open>try\<close> of the cycle: when it raises, the handler of the worker logs the
  error and the loop is over. The loop may also run for ever: \<open>None\<close> is the loop
  that does not return.
\<close>

partial_function (option) streaming_loop ::
  "etl_components \<Rightarrow> string list \<Rightarrow> int \<Rightarrow> int option \<Rightarrow> stream_callback option
     \<Rightarrow> nat option \<Rightarrow> (int \<Rightarrow> datetime) \<Rightarrow> worker_state \<Rightarrow> worker_state option" where
  "streaming_loop svc syms interval_mins max_iterations cb stop_at utcnow_at st =
     (if is_set stop_at (polls st) then Some (st\<lparr>polls := Suc (polls st)\<rparr>)
      else if cap_reached max_iterations (iteration st)
        then Some (st\<lparr>polls := Suc (polls st)\<rparr>)
      else
        let start_time = utcnow_at (iteration st + 1);
            cycled = \<lparr>iteration = iteration st + 1, polls = Suc (polls st),
                      ws_world = streaming_cycle svc syms cb (iteration st + 1) (ws_world st)\<rparr>
        in
        (case next_run_time start_time interval_mins of
           Inl e \<Rightarrow> Some cycled
         | Inr next_run \<Rightarrow>
             streaming_loop svc syms interval_mins max_iterations cb stop_at utcnow_at
               (cycled\<lparr>polls := wait_loop stop_at (nat (interval_mins * 60))
                                    (Suc (polls st))\<rparr>)))"

text \<open>
  \<open>_streaming_worker\<close> starts the loop at iteration 0; when the loop ends, the
  \<open>finally\<close> clause clears \<open>is_running\<close>. The result is \<open>None\<close> while the worker
  runs, and the final state with the value of \<open>is_running\<close> once it has ended.
\<close>

definition streaming_worker ::
  "etl_components \<Rightarrow> string list \<Rightarrow> int \<Rightarrow> int option \<Rightarrow> stream_callback option
     \<Rightarrow> nat option \<Rightarrow> (int \<Rightarrow> datetime) \<Rightarrow> world \<Rightarrow> (worker_state \<times> bool) option" where
  "streaming_worker svc syms interval_mins max_iterations cb stop_at utcnow_at w =
     (case streaming_loop svc syms interval_mins max_iterations cb stop_at utcnow_at
             \<lparr>iteration = 0, polls = 0, ws_world = w\<rparr> of
        None \<Rightarrow> None
      | Some st \<Rightarrow> Some (st, False))"

text \<open>
  \<open>start_streaming\<close>: refused while the service is running; otherwise the flag
  \<open>is_running\<close> is set, the stop event cleared, and a thread started on
  \<open>_streaming_worker\<close> with the symbols (the five default ones if none are given),
  the interval, \<open>max_iterations\<close> and the callback as received. The thread is recorded
  by its arguments.
\<close>

record 'cb streaming_service =
  ss_is_running :: bool
  ss_stop_event :: bool
  ss_streaming_thread :: "(string list \<times> int \<times> int option \<times> 'cb option) option"

definition start_streaming ::
  "'cb streaming_service \<Rightarrow> string list option \<Rightarrow> int \<Rightarrow> int option \<Rightarrow> 'cb option
     \<Rightarrow> bool \<times> 'cb streaming_service" where
  "start_streaming self syms_arg interval_mins max_iterations cb =
     (if ss_is_running self then (False, self)
      else
        let syms = (case syms_arg of
                      None \<Rightarrow> [''AAPL'', ''MSFT'', ''GOOGL'', ''AMZN'', ''TSLA'']
                    | Some given \<Rightarrow> given)
        in (True, self\<lparr>ss_is_running := True, ss_stop_event := False,
                        ss_streaming_thread :=
                          Some (syms, interval_mins, max_iterations, cb)\<rparr>))"

section \<open>Instants and helpers used in the statements\<close>

text \<open>Spec-side helpers: a day's instant at a full hour, and the instant some days later.\<close>

definition at_hour :: "datetime \<Rightarrow> int \<Rightarrow> datetime" where
  "at_hour d h = d\<lparr>hour := h, minute := 0, second := 0, microsecond := 0\<rparr>"

definition plus_days :: "datetime \<Rightarrow> int \<Rightarrow> datetime" where
  "plus_days d k = d\<lparr>ordinal := ordinal d + k\<rparr>"

definition wednesday :: "int \<Rightarrow> datetime" where
  "wednesday h = \<lparr>ordinal = 738888, hour = h, minute = 0, second = 0, microsecond = 0\<rparr>"

definition friday :: "int \<Rightarrow> datetime" where
  "friday h = \<lparr>ordinal = 738890, hour = h, minute = 0, second = 0, microsecond = 0\<rparr>"

definition saturday :: "int \<Rightarrow> datetime" where
  "saturday h = \<lparr>ordinal = 738891, hour = h, minute = 0, second = 0, microsecond = 0\<rparr>"

definition monday :: "int \<Rightarrow> datetime" where
  "monday h = \<lparr>ordinal = 738893, hour = h, minute = 0, second = 0, microsecond = 0\<rparr>"

subsection \<open>Library functions on the strings of the examples\<close>

text \<open>
  The examples below use a handful of strings. On each of them the functions here
  return what the Python functions return; no example applies them to any other string.
\<close>

definition example_float :: "string \<Rightarrow> pyfloat option" where
  "example_float s =
     (if s = ''100.0'' then Some (Fin 100)
      else if s = ''101.0'' then Some (Fin 101)
      else if s = ''99.0'' then Some (Fin 99)
      else if s = ''98.0'' then Some (Fin 98)
      else if s = ''nan'' then Some NaN
      else None)"

definition example_int :: "string \<Rightarrow> int option" where
  "example_int s = (if s = ''1000'' then Some 1000 else None)"

definition example_strptime :: "string \<Rightarrow> string \<Rightarrow> datetime option" where
  "example_strptime s fmt =
     (if fmt = ''%Y-%m-%d %H:%M:%S'' \<and> s = ''2024-01-03 10:00:00''
        then Some \<lparr>ordinal = 738888, hour = 10, minute = 0, second = 0, microsecond = 0\<rparr>
      else if fmt = ''%Y-%m-%d %H:%M:%S'' \<and> s = ''2024-01-03 10:05:00''
        then Some \<lparr>ordinal = 738888, hour = 10, minute = 5, second = 0, microsecond = 0\<rparr>
      else None)"

definition example_lib :: pylib where
  "example_lib =
     \<lparr>float_of_str = example_float, int_of_str = example_int,
      strptime = example_strptime, dateutil_parse = (\<lambda>s. None)\<rparr>"

definition example_strlib :: strlib where
  "example_strlib =
     \<lparr>str_upper = (\<lambda>s. s), isoformat = (\<lambda>d. ''2024-01-03T10:00:00'')\<rparr>"

text \<open>Items of a time series: a bar, as the provider sends it, under a timestamp.\<close>

definition bar :: "string \<Rightarrow> string \<Rightarrow> string \<Rightarrow> string \<Rightarrow> string \<Rightarrow> json" where
  "bar o_s h_s l_s c_s v_s =
     JDict [(''1. open'', JStr o_s), (''2. high'', JStr h_s), (''3. low'', JStr l_s),
            (''4. close'', JStr c_s), (''5. volume'', JStr v_s)]"

definition good_item :: "string \<times> json" where
  "good_item = (''2024-01-03 10:00:00'', bar ''100.0'' ''101.0'' ''99.0'' ''100.0'' ''1000'')"

definition low_high_item :: "string \<times> json" where
  "low_high_item = (''2024-01-03 10:05:00'', bar ''100.0'' ''99.0'' ''98.0'' ''101.0'' ''1000'')"

definition nan_item :: "string \<times> json" where
  "nan_item = (''2024-01-03 10:05:00'', bar ''nan'' ''101.0'' ''99.0'' ''100.0'' ''1000'')"

definition raw_of :: "json \<Rightarrow> raw_data" where
  "raw_of time_series =
     \<lparr>rd_symbol = Some ''AAPL'', rd_interval = Some ''5min'',
      rd_time_series = Some time_series, rd_metadata = Some (JDict [])\<rparr>"

text \<open>An item yields a record exactly when its \<open>try\<close> body ends with one.\<close>

definition item_accepted :: "pylib \<Rightarrow> string \<Rightarrow> string \<Rightarrow> string \<times> json \<Rightarrow> bool" where
  "item_accepted lib sy ivl item =
     (case create_price_object lib sy ivl (fst item) (snd item) of
        Inr (Some r) \<Rightarrow> True | _ \<Rightarrow> False)"

text \<open>Response bodies of the provider.\<close>

definition series_body :: "(string \<times> json) list \<Rightarrow> http_result" where
  "series_body items =
     Body (JDict [(''Meta Data'', JDict [(''3. Last Refreshed'', JStr ''2024-01-03 10:05:00''),
                                         (''6. Time Zone'', JStr ''US/Eastern'')]),
                  (''Time Series (5min)'', JDict items)])"

definition error_body :: http_result where
  "error_body = Body (JDict [(''Error Message'', JStr ''Invalid API call.'')])"

subsection \<open>Reading the price table\<close>

text \<open>The natural key of a stored row, and the rows stored under a key.\<close>

definition price_key :: "price_row \<Rightarrow> string \<times> datetime \<times> string" where
  "price_key r = (pr_stock_symbol r, pr_timestamp r, pr_interval r)"

definition rows_for :: "string \<Rightarrow> datetime \<Rightarrow> string \<Rightarrow> world \<Rightarrow> price_row list" where
  "rows_for sy ts ivl w = filter (same_key sy ts ivl) (stock_prices_intraday w)"

text \<open>
  No two rows of the price table have the same key (symbol, timestamp, interval). The
  table is created without a constraint that says so.
\<close>

definition unique_keys :: "world \<Rightarrow> bool" where
  "unique_keys w = distinct (map price_key (stock_prices_intraday w))"

text \<open>
  The symbol and the interval of a record fit their \<open>VARCHAR(10)\<close> columns: the
  key of the record is stored as it is.
\<close>

definition fits_key :: "StockPriceIntraday \<Rightarrow> bool" where
  "fits_key p = (length (stock_symbol p) \<le> 10 \<and> length (interval p) \<le> 10)"

text \<open>A sequence of loads of single records, each in the state the one before left.\<close>

fun load_sequence :: "StockPriceIntraday list \<Rightarrow> world \<Rightarrow> world" where
  "load_sequence [] w = w"
| "load_sequence (p # ps) w = load_sequence ps (snd (load_single_price_record p w))"

text \<open>States and records of the examples.\<close>

text \<open>
  The cast to \<open>DECIMAL(10,4)\<close> on the values of the examples: a whole number below a
  million is stored as it is. No example stores any other finite value.
\<close>

definition example_decimal :: "pyfloat \<Rightarrow> numeric option" where
  "example_decimal f =
     (case f of
        Fin q \<Rightarrow> if of_int \<lfloor>q\<rfloor> = q \<and> \<bar>q\<bar> < 1000000 then Some (Numeric q) else None
      | NaN \<Rightarrow> Some NumericNaN
      | _ \<Rightarrow> None)"

definition empty_world :: world where
  "empty_world =
     \<lparr>connection_pool = True, faults = [], decimal_10_4 = example_decimal,
      current_timestamp = wednesday 10, stocks = [], stock_prices_intraday = [],
      etl_job_logs = [], clock = wednesday 10\<rparr>"

text \<open>
  A state in which the two stocks of the examples are registered, as the API of the
  repository registers them.
\<close>

definition registered :: "string \<Rightarrow> stock_row" where
  "registered sy =
     \<lparr>sr_symbol = sy, sr_company_name = sy @ '' Inc.'', sr_exchange = ''NASDAQ'',
      sr_is_active = True, sr_created_at = monday 8, sr_updated_at = monday 8\<rparr>"

definition stocked_world :: world where
  "stocked_world = empty_world\<lparr>stocks := [registered ''AAPL'', registered ''MSFT'']\<rparr>"

definition price_at_10 :: "rat \<Rightarrow> StockPriceIntraday" where
  "price_at_10 x =
     \<lparr>stock_symbol = ''AAPL'', timestamp = wednesday 10,
      open_price = Fin x, high_price = Fin (x + 1), low_price = Fin (x - 1),
      close_price = Fin x, volume = 1000, interval = ''5min''\<rparr>"

definition example_transformed :: transformed_data where
  "example_transformed =
     \<lparr>td_stock = Some (create_stock_object (wednesday 10) ''AAPL'' (JDict [])),
      td_price_records = Some [price_at_10 100],
      td_metadata = Some \<lparr>md_symbol = Some ''AAPL'', md_interval = Some ''5min'',
                            md_record_count = Some 1,
                            md_transformation_timestamp = Some (wednesday 10),
                            md_api_metadata = Some (JDict [])\<rparr>\<rparr>"

subsection \<open>Reading the outcome of a run\<close>

text \<open>
  An extraction has failed when the extractor raised, returned \<open>None\<close> or returned an
  empty dict: the three cases in which \<open>process_stock_intraday\<close> does not go on to
  the transformer.
\<close>

definition extraction_fails :: "exn + raw_data option \<Rightarrow> bool" where
  "extraction_fails r =
     (case r of Inl e \<Rightarrow> True | Inr None \<Rightarrow> True | Inr (Some raw) \<Rightarrow> raw_empty raw)"

text \<open>A network on which one symbol cannot be fetched and every other has one bar.\<close>

definition example_network :: "string \<Rightarrow> string \<Rightarrow> http_result" where
  "example_network sy ivl = (if sy = ''FAIL'' then RequestFailed else series_body [good_item])"

definition example_service :: etl_components where
  "example_service = etl_service example_lib example_strlib example_network"

text \<open>The state of a process that has not yet opened its connection pool.\<close>

definition fresh_world :: world where
  "fresh_world = stocked_world\<lparr>connection_pool := False\<rparr>"

text \<open>
  A price table with two rows under one key, which the table definition permits: it
  declares no uniqueness constraint.
\<close>

definition stored_at_10 :: "rat \<Rightarrow> price_row" where
  "stored_at_10 x =
     \<lparr>pr_stock_symbol = ''AAPL'', pr_timestamp = wednesday 10,
      pr_open_price = Numeric x, pr_high_price = Numeric (x + 1),
      pr_low_price = Numeric (x - 1), pr_close_price = Numeric x, pr_volume = 1000,
      pr_interval = ''5min'', pr_created_at = monday 8, pr_updated_at = monday 8\<rparr>"

definition duplicate_world :: world where
  "duplicate_world = stocked_world\<lparr>stock_prices_intraday := [stored_at_10 90, stored_at_10 95]\<rparr>"


text \<open>
  A record whose interval is longer than its column by spaces only: the column takes
  the interval cut to ten characters.
\<close>

definition padded_interval :: string where
  "padded_interval = ''5min        ''"

definition padded_price :: "rat \<Rightarrow> StockPriceIntraday" where
  "padded_price x = (price_at_10 x)\<lparr>interval := padded_interval\<rparr>"

text \<open>
  A clock for the worker: cycle \<open>i\<close> starts \<open>i\<close> minutes (modulo the hour) past
  ten on the Wednesday of the examples. And an interval of a thousand million days, in
  minutes: one day more than a \<open>timedelta\<close> holds.
\<close>

definition example_clock :: "int \<Rightarrow> datetime" where
  "example_clock i = (wednesday 10)\<lparr>minute := i mod 60\<rparr>"

definition huge_interval :: int where
  "huge_interval = 1000000000 * 1440"
section \<open>Properties of the scheduler\<close>

lemma weekday_examples:
  "weekday (wednesday h) = 2" "weekday (friday h) = 4"
  "weekday (saturday h) = 5" "weekday (monday h) = 0"
  by (simp_all add: weekday_def wednesday_def friday_def saturday_def monday_def)

lemma hour_examples:
  "hour (wednesday h) = h" "hour (friday h) = h" "hour (saturday h) = h" "hour (monday h) = h"
  by (simp_all add: wednesday_def friday_def saturday_def monday_def)

text \<open>
  C7. For any schedule, each of the three predicates is false when the weekday of the
  instant is not a trading day, and otherwise a test of the hour that includes the lower
  bound and excludes the upper one; without an instant, the predicate is about the
  reading of the clock. With open 9, close 16, pre-market start 4, after-hours end 20
  and trading days Monday to Friday, at the six instants of the specification:
  the market is closed on Saturday 10:00, open on Wednesday 10:00, closed on Wednesday
  8:00; Wednesday 6:00 is pre-market; Wednesday 17:00 is after-hours and Wednesday 21:00
  is not.
\<close>

theorem market_window_predicates:
  "is_market_open ms clk (Some t) =
     (weekday t \<in> set (trading_days ms) \<and> open_hour ms \<le> hour t \<and> hour t < close_hour ms)
   \<and> is_pre_market ms clk (Some t) =
     (weekday t \<in> set (trading_days ms) \<and> pre_market_start ms \<le> hour t \<and> hour t < open_hour ms)
   \<and> is_after_hours ms clk (Some t) =
     (weekday t \<in> set (trading_days ms) \<and> close_hour ms \<le> hour t \<and> hour t < after_hours_end ms)
   \<and> is_market_open ms clk None = is_market_open ms clk (Some clk)
   \<and> is_pre_market ms clk None = is_pre_market ms clk (Some clk)
   \<and> is_after_hours ms clk None = is_after_hours ms clk (Some clk)
   \<and> \<not> is_market_open default_MarketSchedule clk (Some (saturday 10))
   \<and> is_market_open default_MarketSchedule clk (Some (wednesday 10))
   \<and> \<not> is_market_open default_MarketSchedule clk (Some (wednesday 8))
   \<and> is_pre_market default_MarketSchedule clk (Some (wednesday 6))
   \<and> is_after_hours default_MarketSchedule clk (Some (wednesday 17))
   \<and> \<not> is_after_hours default_MarketSchedule clk (Some (wednesday 21))"
proof -
  have sched: "trading_days default_MarketSchedule = [0, 1, 2, 3, 4]"
    "open_hour default_MarketSchedule = 9" "close_hour default_MarketSchedule = 16"
    "pre_market_start default_MarketSchedule = 4" "after_hours_end default_MarketSchedule = 20"
    by (simp_all add: default_MarketSchedule_def)
  show ?thesis
    by (simp add: is_market_open_def is_pre_market_def is_after_hours_def
          sched hour_examples weekday_examples)
qed

theorem market_window_predicates_witness:
  "is_market_open default_MarketSchedule (monday 0) (Some (friday 15))
   \<and> \<not> is_pre_market default_MarketSchedule (monday 0) (Some (friday 15))
   \<and> \<not> is_after_hours default_MarketSchedule (monday 0) (Some (friday 15))"
  using market_window_predicates [of default_MarketSchedule "monday 0" "friday 15"]
  by (simp add: default_MarketSchedule_def weekday_examples hour_examples)


subsection \<open>The forward scan for the next trading day\<close>

lemma plus_days_simps:
  "ordinal (plus_days d k) = ordinal d + k"
  "plus_days (plus_days d j) k = plus_days d (j + k)"
  "weekday (plus_days d k) = (ordinal d + k + 6) mod 7"
  by (simp_all add: plus_days_def weekday_def)

lemma add_one_day_plus_days:
  "ordinal d + 1 \<le> MAXORDINAL \<Longrightarrow> add_one_day d = Inr (plus_days d 1)"
  by (simp add: add_one_day_def plus_days_def)

lemma find_next_trading_day_scan:
  "weekday (plus_days d (int (Suc k))) \<in> set tds \<Longrightarrow>
   (\<And>j. j < k \<Longrightarrow> weekday (plus_days d (int (Suc j))) \<notin> set tds) \<Longrightarrow>
   ordinal d + int (Suc k) \<le> MAXORDINAL \<Longrightarrow>
   find_next_trading_day tds d = Inr (plus_days d (int (Suc k)))"
proof (induction k arbitrary: d)
  case 0
  then have "add_one_day d = Inr (plus_days d 1)"
    by (simp add: add_one_day_plus_days)
  with 0 show ?case
    by (subst find_next_trading_day.simps) simp
next
  case (Suc k)
  let ?d1 = "plus_days d 1"
  have step: "add_one_day d = Inr ?d1"
    using Suc.prems(3) by (simp add: add_one_day_plus_days)
  have shift: "plus_days ?d1 (int (Suc j)) = plus_days d (int (Suc (Suc j)))" for j
    by (simp add: plus_days_def)
  have not_first: "weekday ?d1 \<notin> set tds"
    using Suc.prems(2) [of 0] by simp
  have "find_next_trading_day tds ?d1 = Inr (plus_days ?d1 (int (Suc k)))"
  proof (rule Suc.IH)
    show "weekday (plus_days ?d1 (int (Suc k))) \<in> set tds"
      using Suc.prems(1) by (simp only: shift)
    show "weekday (plus_days ?d1 (int (Suc j))) \<notin> set tds" if "j < k" for j
      using Suc.prems(2) [of "Suc j"] that by (simp only: shift) simp
    show "ordinal ?d1 + int (Suc k) \<le> MAXORDINAL"
      using Suc.prems(3) by (simp add: plus_days_def)
  qed
  then show ?case
    using step not_first by (subst find_next_trading_day.simps) (simp add: plus_days_def)
qed

lemma trading_day_within_week:
  assumes "w \<in> set tds" "0 \<le> w" "w \<le> 6"
  shows "\<exists>k<7. weekday (plus_days d (int (Suc k))) \<in> set tds"
proof -
  define k where "k = nat ((w - (ordinal d + 7)) mod 7)"
  have "k < 7" by (simp add: k_def)
  moreover have "(ordinal d + int (Suc k) + 6) mod 7 = w"
    using assms(2,3) unfolding k_def by (simp add: nat_mod_distrib) presburger
  ultimately show ?thesis
    using assms(1) by (auto simp: plus_days_simps)
qed

lemma first_trading_day:
  assumes "w \<in> set tds" "0 \<le> w" "w \<le> 6"
  shows "\<exists>k<7. weekday (plus_days d (int (Suc k))) \<in> set tds
           \<and> (\<forall>j<k. weekday (plus_days d (int (Suc j))) \<notin> set tds)"
proof -
  let ?P = "\<lambda>k. weekday (plus_days d (int (Suc k))) \<in> set tds"
  obtain k where k: "k < 7" "?P k"
    using trading_day_within_week [OF assms] by blast
  let ?m = "LEAST k. ?P k"
  have "?P ?m" using k(2) by (rule LeastI)
  moreover have "?m \<le> k" using k(2) by (rule Least_le)
  moreover have "\<not> ?P j" if "j < ?m" for j
    using that by (rule not_less_Least)
  ultimately show ?thesis
    using k(1) by (intro exI [of _ ?m]) auto
qed

text \<open>
  C8. For a schedule whose open hour is an hour of the day and that has a trading day,
  and an instant at least a week before the end of the calendar:
  if today is a trading day and the instant is before today's open-hour instant, the
  result is today's open-hour instant; otherwise it is the open-hour instant of the
  first day after today, within the next seven, that is a trading day. With the default
  schedule, Friday 20:00 gives Monday 9:00.
\<close>

theorem next_market_open_skips_non_trading_days:
  assumes "0 \<le> open_hour ms" "open_hour ms \<le> 23"
    and "w \<in> set (trading_days ms)" "0 \<le> w" "w \<le> 6"
    and "ordinal now + 7 \<le> MAXORDINAL"
  shows "(if weekday now \<in> set (trading_days ms) \<and> dt_less now (at_hour now (open_hour ms))
          then get_next_market_open ms clk (Some now) = Inr (at_hour now (open_hour ms))
          else \<exists>k::nat. 1 \<le> k \<and> k \<le> 7
                 \<and> weekday (plus_days now (int k)) \<in> set (trading_days ms)
                 \<and> (\<forall>j. 1 \<le> j \<and> j < k \<longrightarrow>
                        weekday (plus_days now (int j)) \<notin> set (trading_days ms))
                 \<and> get_next_market_open ms clk (Some now)
                     = Inr (at_hour (plus_days now (int k)) (open_hour ms)))
         \<and> get_next_market_open default_MarketSchedule clk (Some (friday 20)) = Inr (monday 9)"
proof -
  let ?tds = "trading_days ms"
  have repl: "replace_hour d (open_hour ms) = Inr (at_hour d (open_hour ms))" for d
    using assms(1,2) by (simp add: replace_hour_def at_hour_def)
  obtain k where k: "k < 7" "weekday (plus_days now (int (Suc k))) \<in> set ?tds"
    "\<And>j. j < k \<Longrightarrow> weekday (plus_days now (int (Suc j))) \<notin> set ?tds"
    using first_trading_day [OF assms(3,4,5), of now] by blast
  have scan: "find_next_trading_day ?tds now = Inr (plus_days now (int (Suc k)))"
    using k(2,3) assms(6) k(1) by (intro find_next_trading_day_scan) auto
  have earlier: "weekday (plus_days now (int j)) \<notin> set ?tds" if "1 \<le> j" "j < Suc k" for j
    using k(3) [of "j - 1"] that by simp
  have general: "if weekday now \<in> set ?tds \<and> dt_less now (at_hour now (open_hour ms))
          then get_next_market_open ms clk (Some now) = Inr (at_hour now (open_hour ms))
          else \<exists>k::nat. 1 \<le> k \<and> k \<le> 7
                 \<and> weekday (plus_days now (int k)) \<in> set ?tds
                 \<and> (\<forall>j. 1 \<le> j \<and> j < k \<longrightarrow> weekday (plus_days now (int j)) \<notin> set ?tds)
                 \<and> get_next_market_open ms clk (Some now)
                     = Inr (at_hour (plus_days now (int k)) (open_hour ms))"
  proof (cases "weekday now \<in> set ?tds \<and> dt_less now (at_hour now (open_hour ms))")
    case True
    then show ?thesis
      by (simp add: get_next_market_open_def Let_def repl)
  next
    case False
    have "get_next_market_open ms clk (Some now)
            = Inr (at_hour (plus_days now (int (Suc k))) (open_hour ms))"
      using False by (auto simp: get_next_market_open_def Let_def repl scan)
    moreover have "1 \<le> Suc k" "Suc k \<le> 7"
      using k(1) by simp_all
    moreover have "\<forall>j. 1 \<le> j \<and> j < Suc k \<longrightarrow> weekday (plus_days now (int j)) \<notin> set ?tds"
      using earlier by blast
    ultimately have "\<exists>k::nat. 1 \<le> k \<and> k \<le> 7
                 \<and> weekday (plus_days now (int k)) \<in> set ?tds
                 \<and> (\<forall>j. 1 \<le> j \<and> j < k \<longrightarrow> weekday (plus_days now (int j)) \<notin> set ?tds)
                 \<and> get_next_market_open ms clk (Some now)
                     = Inr (at_hour (plus_days now (int k)) (open_hour ms))"
      using k(2) by blast
    with False show ?thesis
      by (simp only: if_False)
  qed
  have sat: "add_one_day (friday 20) = Inr (saturday 20)"
    and sun: "add_one_day (saturday 20) = Inr (plus_days (saturday 20) 1)"
    and mon: "add_one_day (plus_days (saturday 20) 1) = Inr (monday 20)"
    by (simp_all add: add_one_day_def friday_def saturday_def monday_def plus_days_def
          MAXORDINAL_def)
  have wsun: "weekday (plus_days (saturday 20) 1) = 6"
    by (simp add: plus_days_simps saturday_def)
  have "find_next_trading_day [0, 1, 2, 3, 4] (friday 20) = Inr (monday 20)"
    by (simp add: find_next_trading_day.simps [of _ "friday 20"]
          find_next_trading_day.simps [of _ "saturday 20"]
          find_next_trading_day.simps [of _ "plus_days (saturday 20) 1"]
          sat sun mon wsun weekday_examples)
  moreover have "\<not> dt_less (friday 20) (friday 9)"
    by (simp add: dt_less_def friday_def)
  moreover have "replace_hour (friday 20) 9 = Inr (friday 9)"
    "replace_hour (monday 20) 9 = Inr (monday 9)"
    by (simp_all add: replace_hour_def friday_def monday_def)
  ultimately have "get_next_market_open default_MarketSchedule clk (Some (friday 20))
      = Inr (monday 9)"
    by (simp add: get_next_market_open_def default_MarketSchedule_def weekday_examples)
  with general show ?thesis by simp
qed

theorem next_market_open_skips_non_trading_days_witness:
  "get_next_market_open default_MarketSchedule (monday 0) (Some (wednesday 8))
     = Inr (wednesday 9)"
proof -
  let ?ms = default_MarketSchedule
  have sched: "open_hour ?ms = 9" "trading_days ?ms = [0, 1, 2, 3, 4]"
    by (simp_all add: default_MarketSchedule_def)
  have hyps: "0 \<le> open_hour ?ms" "open_hour ?ms \<le> 23"
    "2 \<in> set (trading_days ?ms)" "(0::int) \<le> 2" "(2::int) \<le> 6"
    "ordinal (wednesday 8) + 7 \<le> MAXORDINAL"
    by (simp_all add: sched wednesday_def MAXORDINAL_def)
  have today: "at_hour (wednesday 8) 9 = wednesday 9"
    by (simp add: at_hour_def wednesday_def)
  have before: "weekday (wednesday 8) \<in> set (trading_days ?ms)
      \<and> dt_less (wednesday 8) (at_hour (wednesday 8) (open_hour ?ms))"
    by (simp add: sched weekday_examples today) (simp add: dt_less_def wednesday_def)
  from next_market_open_skips_non_trading_days [OF hyps, of "monday 0"] before
  have "get_next_market_open ?ms (monday 0) (Some (wednesday 8))
          = Inr (at_hour (wednesday 8) (open_hour ?ms))"
    by (simp only: if_True)
  then show ?thesis
    by (simp only: sched today)
qed

text \<open>
  C9. Registering a job under a name that is not yet present returns \<open>True\<close> and
  stores the registration under that name, leaving every other name as it was; a second
  registration under the same name, whatever its other arguments and whichever of the
  three registration functions makes it, returns \<open>False\<close> and returns the scheduler
  unchanged, the first registration with it.
\<close>

theorem duplicate_job_registration_rejected:
  assumes "job_name \<notin> dom (scheduled_jobs self)"
  shows "schedule_market_hours_job self t1 job_name syms ivl cb
           = (True, self\<lparr>scheduled_jobs := (scheduled_jobs self)(job_name \<mapsto>
                \<lparr>name = job_name, symbols = syms, interval_minutes = ivl, callback = cb,
                 job_type = ''market_hours'', created_at = t1\<rparr>)\<rparr>)
         \<and> (let s1 = snd (schedule_market_hours_job self t1 job_name syms ivl cb) in
              schedule_market_hours_job s1 t2 job_name syms' ivl' cb' = (False, s1)
              \<and> schedule_pre_market_job s1 t2 job_name syms' ivl' cb' = (False, s1)
              \<and> schedule_after_hours_job s1 t2 job_name syms' ivl' cb' = (False, s1)
              \<and> scheduled_jobs (snd (schedule_market_hours_job s1 t2 job_name syms' ivl' cb'))
                  = scheduled_jobs s1
              \<and> scheduled_jobs s1 job_name
                  = Some \<lparr>name = job_name, symbols = syms, interval_minutes = ivl,
                          callback = cb, job_type = ''market_hours'', created_at = t1\<rparr>
              \<and> (\<forall>other. other \<noteq> job_name \<longrightarrow>
                    scheduled_jobs s1 other = scheduled_jobs self other))"
  using assms
  by (simp add: schedule_market_hours_job_def schedule_pre_market_job_def
        schedule_after_hours_job_def Let_def)

theorem duplicate_job_registration_rejected_witness:
  "fst (schedule_market_hours_job
          \<lparr>market_schedule = default_MarketSchedule, is_running = False,
           scheduled_jobs = Map.empty\<rparr> (monday 8) ''x'' [''AAPL''] 5 (None :: unit option))
   \<and> \<not> fst (schedule_market_hours_job
          (snd (schedule_market_hours_job
             \<lparr>market_schedule = default_MarketSchedule, is_running = False,
              scheduled_jobs = Map.empty\<rparr> (monday 8) ''x'' [''AAPL''] 5 (None :: unit option)))
          (monday 9) ''x'' [''MSFT''] 15 None)"
proof -
  let ?s = "\<lparr>market_schedule = default_MarketSchedule, is_running = False,
             scheduled_jobs = (Map.empty :: string \<rightharpoonup> unit job_config)\<rparr>"
  have "''x'' \<notin> dom (scheduled_jobs ?s)" by simp
  note reg = duplicate_job_registration_rejected [OF this, of "monday 8" "[''AAPL'']" 5 None
      "monday 9" "[''MSFT'']" 15 None]
  have "fst (schedule_market_hours_job ?s (monday 8) ''x'' [''AAPL''] 5 None)"
    by (simp only: conjunct1 [OF reg] fst_conv)
  moreover have "schedule_market_hours_job
      (snd (schedule_market_hours_job ?s (monday 8) ''x'' [''AAPL''] 5 None))
      (monday 9) ''x'' [''MSFT''] 15 None
      = (False, snd (schedule_market_hours_job ?s (monday 8) ''x'' [''AAPL''] 5 None))"
    using conjunct2 [OF reg] unfolding Let_def by (rule conjunct1)
  then have "\<not> fst (schedule_market_hours_job
      (snd (schedule_market_hours_job ?s (monday 8) ''x'' [''AAPL''] 5 None))
      (monday 9) ''x'' [''MSFT''] 15 None)"
    by (simp only: fst_conv not_False_eq_True)
  ultimately show ?thesis by (rule conjI)
qed

section \<open>Properties of the transformer\<close>

lemma example_lib_simps:
  "float_of_str example_lib = example_float" "int_of_str example_lib = example_int"
  "strptime example_lib = example_strptime" "dateutil_parse example_lib = (\<lambda>s. None)"
  by (simp_all add: example_lib_def)

lemma example_timestamps:
  "parse_timestamp example_lib ''2024-01-03 10:00:00''
     = Inr \<lparr>ordinal = 738888, hour = 10, minute = 0, second = 0, microsecond = 0\<rparr>"
  "parse_timestamp example_lib ''2024-01-03 10:05:00''
     = Inr \<lparr>ordinal = 738888, hour = 10, minute = 5, second = 0, microsecond = 0\<rparr>"
  by (simp_all add: parse_timestamp_def timestamp_formats_def example_lib_simps
        example_strptime_def)

lemma example_floats:
  "py_float example_lib (JStr ''100.0'') = Inr (Fin 100)"
  "py_float example_lib (JStr ''101.0'') = Inr (Fin 101)"
  "py_float example_lib (JStr ''99.0'') = Inr (Fin 99)"
  "py_float example_lib (JStr ''98.0'') = Inr (Fin 98)"
  "py_float example_lib (JStr ''nan'') = Inr NaN"
  "py_int example_lib (JStr ''1000'') = Inr 1000"
  by (simp_all add: example_lib_simps example_float_def example_int_def)

lemma bar_fields:
  "create_price_object lib sy ivl ts (bar o_s h_s l_s c_s v_s) =
     (case parse_timestamp lib ts of Inl e \<Rightarrow> Inl e | Inr t \<Rightarrow>
      (case py_float lib (JStr o_s) of Inl e \<Rightarrow> Inl e | Inr open_p \<Rightarrow>
       (case py_float lib (JStr h_s) of Inl e \<Rightarrow> Inl e | Inr high_p \<Rightarrow>
        (case py_float lib (JStr l_s) of Inl e \<Rightarrow> Inl e | Inr low_p \<Rightarrow>
         (case py_float lib (JStr c_s) of Inl e \<Rightarrow> Inl e | Inr close_p \<Rightarrow>
          (case py_int lib (JStr v_s) of Inl e \<Rightarrow> Inl e | Inr vol \<Rightarrow>
             if \<not> validate_price_data open_p high_p low_p close_p vol then Inr None
             else Inr (Some \<lparr>stock_symbol = sy, timestamp = t,
                              open_price = open_p, high_price = high_p,
                              low_price = low_p, close_price = close_p,
                              volume = vol, interval = ivl\<rparr>)))))))"
  by (simp add: create_price_object_def bar_def dict_get_def split: sum.splits)

lemma good_item_record:
  "create_price_object example_lib sy ivl (fst good_item) (snd good_item) =
     Inr (Some \<lparr>stock_symbol = sy,
        timestamp = \<lparr>ordinal = 738888, hour = 10, minute = 0, second = 0, microsecond = 0\<rparr>,
        open_price = Fin 100, high_price = Fin 101, low_price = Fin 99,
        close_price = Fin 100, volume = 1000, interval = ivl\<rparr>)"
  by (simp add: good_item_def bar_fields example_timestamps example_floats
        validate_price_data_def py_max_def py_min_def del: py_float.simps py_int.simps)

lemma low_high_item_rejected:
  "create_price_object example_lib sy ivl (fst low_high_item) (snd low_high_item) = Inr None"
  by (simp add: low_high_item_def bar_fields example_timestamps example_floats
        validate_price_data_def py_max_def py_min_def del: py_float.simps py_int.simps)

lemma nan_item_record:
  "create_price_object example_lib sy ivl (fst nan_item) (snd nan_item) =
     Inr (Some \<lparr>stock_symbol = sy,
        timestamp = \<lparr>ordinal = 738888, hour = 10, minute = 5, second = 0, microsecond = 0\<rparr>,
        open_price = NaN, high_price = Fin 101, low_price = Fin 99,
        close_price = Fin 100, volume = 1000, interval = ivl\<rparr>)"
  by (simp add: nan_item_def bar_fields example_timestamps example_floats
        validate_price_data_def py_max_def py_min_def del: py_float.simps py_int.simps)

subsection \<open>What validation guarantees\<close>

text \<open>The spec-side reading of the five conditions on an accepted record.\<close>

lemma validate_price_data_sound:
  assumes "validate_price_data open_p high_p low_p close_p vol"
    and "open_p \<noteq> NaN" "high_p \<noteq> NaN" "low_p \<noteq> NaN" "close_p \<noteq> NaN"
  shows "fl_lt (Fin 0) open_p \<and> fl_lt (Fin 0) high_p \<and> fl_lt (Fin 0) low_p
         \<and> fl_lt (Fin 0) close_p \<and> 0 \<le> vol
         \<and> fl_le open_p high_p \<and> fl_le close_p high_p
         \<and> fl_le low_p open_p \<and> fl_le low_p close_p
         \<and> fl_le open_p (Fin 1000000) \<and> fl_le high_p (Fin 1000000)
         \<and> fl_le low_p (Fin 1000000) \<and> fl_le close_p (Fin 1000000)"
  using assms
  by (cases open_p; cases high_p; cases low_p; cases close_p)
     (simp_all add: validate_price_data_def py_max_def py_min_def split: if_splits)

lemma price_objects_loop_Cons:
  "price_objects_loop lib sy ivl (item # items) =
     (if item_accepted lib sy ivl item
      then (case create_price_object lib sy ivl (fst item) (snd item) of
              Inr (Some r) \<Rightarrow> [r] | _ \<Rightarrow> []) @ price_objects_loop lib sy ivl items
      else price_objects_loop lib sy ivl items)"
  by (cases item) (simp add: item_accepted_def split: sum.splits option.splits)

lemma length_price_objects_loop_Cons:
  "length (price_objects_loop lib sy ivl (item # items)) =
     (if item_accepted lib sy ivl item then 1 else 0)
       + length (price_objects_loop lib sy ivl items)"
  by (cases item) (simp add: item_accepted_def split: sum.splits option.splits)

lemma length_price_objects_loop:
  "length (price_objects_loop lib sy ivl items)
     = length (filter (item_accepted lib sy ivl) items)"
  by (induction items) (simp_all add: length_price_objects_loop_Cons del: price_objects_loop.simps(2))

lemma price_objects_loop_empty_iff:
  "price_objects_loop lib sy ivl items = []
     \<longleftrightarrow> filter (item_accepted lib sy ivl) items = []"
  using length_price_objects_loop [of lib sy ivl items] by (metis length_0_conv)

lemma create_price_objects_dict:
  "create_price_objects lib sy (JDict items) ivl = Inr (price_objects_loop lib sy ivl items)"
  by (simp add: create_price_objects_def)

lemma create_price_objects_not_dict:
  "(\<forall>items. time_series \<noteq> JDict items) \<Longrightarrow>
   \<exists>e. create_price_objects lib sy time_series ivl = Inl e"
  by (cases time_series) (simp_all add: create_price_objects_def)

lemma transform_intraday_data_dict:
  assumes "rd_time_series raw = Some (JDict items)"
    and "rd_symbol raw = Some sy" and "rd_interval raw = Some ivl"
  shows "transform_intraday_data lib utcnow (Some raw) =
     (if price_objects_loop lib sy ivl items = [] then None
      else Some
        \<lparr>td_stock = Some (create_stock_object utcnow sy
            (case rd_metadata raw of None \<Rightarrow> JDict [] | Some m \<Rightarrow> m)),
         td_price_records = Some (price_objects_loop lib sy ivl items),
         td_metadata = Some
           \<lparr>md_symbol = Some sy, md_interval = Some ivl,
            md_record_count = Some (int (length (price_objects_loop lib sy ivl items))),
            md_transformation_timestamp = Some utcnow,
            md_api_metadata = Some (case rd_metadata raw of None \<Rightarrow> JDict [] | Some m \<Rightarrow> m)\<rparr>\<rparr>)"
  using assms
  by (simp add: transform_intraday_data_def transform_body_def create_price_objects_dict Let_def)

lemma transform_intraday_data_Some_D:
  assumes "transform_intraday_data lib utcnow raw_data = Some td"
  shows "\<exists>raw items sy ivl. raw_data = Some raw \<and> rd_time_series raw = Some (JDict items)
           \<and> rd_symbol raw = Some sy \<and> rd_interval raw = Some ivl
           \<and> price_objects_loop lib sy ivl items \<noteq> []
           \<and> td_price_records td = Some (price_objects_loop lib sy ivl items)"
proof -
  obtain raw where raw: "raw_data = Some raw"
    using assms by (cases raw_data) (simp_all add: transform_intraday_data_def)
  obtain time_series where ts: "rd_time_series raw = Some time_series"
    using assms raw by (cases "rd_time_series raw") (simp_all add: transform_intraday_data_def)
  have body: "transform_body lib utcnow raw time_series = Inr (Some td)"
    using assms raw ts by (simp add: transform_intraday_data_def split: sum.splits)
  obtain sy where sy: "rd_symbol raw = Some sy"
    using body by (cases "rd_symbol raw") (simp_all add: transform_body_def)
  obtain ivl where ivl: "rd_interval raw = Some ivl"
    using body sy by (cases "rd_interval raw") (simp_all add: transform_body_def)
  obtain items where items: "time_series = JDict items"
    using body sy ivl create_price_objects_not_dict [of time_series lib sy ivl]
    by (fastforce simp: transform_body_def Let_def)
  have "price_objects_loop lib sy ivl items \<noteq> []"
    "td_price_records td = Some (price_objects_loop lib sy ivl items)"
    using body sy ivl items
    by (auto simp: transform_body_def Let_def create_price_objects_dict split: if_splits)
  with raw ts sy ivl items show ?thesis by blast
qed

text \<open>
  C4, as the code has it. A present, well-formed time-series container is not enough:
  the transformer returns \<open>None\<close> for an empty series and for a series none of whose
  items is accepted.
\<close>

theorem transform_no_valid_record_counterexample:
  "transform_intraday_data example_lib (wednesday 10) (Some (raw_of (JDict []))) = None
   \<and> transform_intraday_data example_lib (wednesday 10)
        (Some (raw_of (JDict [low_high_item]))) = None"
proof -
  have "price_objects_loop example_lib ''AAPL'' ''5min'' [low_high_item] = []"
    by (simp add: price_objects_loop_Cons item_accepted_def low_high_item_rejected
          del: price_objects_loop.simps(2))
  then show ?thesis
    by (simp add: transform_intraday_data_dict [where sy = "''AAPL''" and ivl = "''5min''"]
          raw_of_def)
qed

text \<open>
  C4, amended. \<open>transform_intraday_data\<close> returns a result exactly when the payload is
  there, has its symbol, its interval and a time series that is a dict, and at least one
  item of the series is accepted (its timestamp and fields parse and the record passes
  validation); the result then carries the records of the accepted items, at least one.
  In every other case, a series without any accepted item included, it returns
  \<open>None\<close>.
\<close>

theorem transform_succeeds_iff_a_record_is_valid:
  "(transform_intraday_data lib utcnow raw_data \<noteq> None) =
     (\<exists>raw items sy ivl. raw_data = Some raw \<and> rd_time_series raw = Some (JDict items)
        \<and> rd_symbol raw = Some sy \<and> rd_interval raw = Some ivl
        \<and> filter (item_accepted lib sy ivl) items \<noteq> [])
   \<and> (\<forall>td. transform_intraday_data lib utcnow raw_data = Some td \<longrightarrow>
         (\<exists>records. td_price_records td = Some records \<and> records \<noteq> []))"
proof (intro conjI iffI allI impI)
  assume "transform_intraday_data lib utcnow raw_data \<noteq> None"
  then obtain td where "transform_intraday_data lib utcnow raw_data = Some td" by blast
  from transform_intraday_data_Some_D [OF this]
  show "\<exists>raw items sy ivl. raw_data = Some raw \<and> rd_time_series raw = Some (JDict items)
        \<and> rd_symbol raw = Some sy \<and> rd_interval raw = Some ivl
        \<and> filter (item_accepted lib sy ivl) items \<noteq> []"
    unfolding price_objects_loop_empty_iff by blast
next
  assume "\<exists>raw items sy ivl. raw_data = Some raw \<and> rd_time_series raw = Some (JDict items)
        \<and> rd_symbol raw = Some sy \<and> rd_interval raw = Some ivl
        \<and> filter (item_accepted lib sy ivl) items \<noteq> []"
  then obtain raw items sy ivl where h: "raw_data = Some raw"
    "rd_time_series raw = Some (JDict items)" "rd_symbol raw = Some sy"
    "rd_interval raw = Some ivl" "filter (item_accepted lib sy ivl) items \<noteq> []"
    by blast
  from h(5) have "price_objects_loop lib sy ivl items \<noteq> []"
    by (simp only: price_objects_loop_empty_iff not_False_eq_True)
  then show "transform_intraday_data lib utcnow raw_data \<noteq> None"
    by (simp add: h(1) transform_intraday_data_dict [OF h(2,3,4)])
next
  fix td
  assume "transform_intraday_data lib utcnow raw_data = Some td"
  from transform_intraday_data_Some_D [OF this]
  show "\<exists>records. td_price_records td = Some records \<and> records \<noteq> []"
    by blast
qed

theorem transform_succeeds_iff_a_record_is_valid_witness:
  "transform_intraday_data example_lib (wednesday 10)
     (Some (raw_of (JDict [low_high_item, good_item]))) \<noteq> None"
proof -
  have "item_accepted example_lib ''AAPL'' ''5min'' good_item"
    by (simp add: item_accepted_def good_item_record)
  then have "filter (item_accepted example_lib ''AAPL'' ''5min'') [low_high_item, good_item] \<noteq> []"
    by simp
  then have "\<exists>raw items sy ivl.
      Some (raw_of (JDict [low_high_item, good_item])) = Some raw
      \<and> rd_time_series raw = Some (JDict items)
      \<and> rd_symbol raw = Some sy \<and> rd_interval raw = Some ivl
      \<and> filter (item_accepted example_lib sy ivl) items \<noteq> []"
    by (intro exI [of _ "raw_of (JDict [low_high_item, good_item])"]
          exI [of _ "[low_high_item, good_item]"] exI [of _ "''AAPL''"] exI [of _ "''5min''"])
       (simp add: raw_of_def)
  with transform_succeeds_iff_a_record_is_valid
    [of example_lib "wednesday 10" "Some (raw_of (JDict [low_high_item, good_item]))"]
  show ?thesis by blast
qed

text \<open>
  C6 at a failing input. The bar under 10:05 has the open price \<open>nan\<close>, which
  \<open>float\<close> accepts. Every comparison of the validation is false on NaN, so the bar
  passes and its record is produced, although its open price is not greater than 0 and
  its high is not at least the larger of open and close.
\<close>

theorem nan_price_passes_validation:
  "validate_price_data NaN (Fin 101) (Fin 99) (Fin 100) 1000
   \<and> create_price_objects example_lib ''AAPL'' (JDict [good_item, nan_item]) ''5min''
      = Inr [\<lparr>stock_symbol = ''AAPL'',
               timestamp = \<lparr>ordinal = 738888, hour = 10, minute = 0, second = 0,
                             microsecond = 0\<rparr>,
               open_price = Fin 100, high_price = Fin 101, low_price = Fin 99,
               close_price = Fin 100, volume = 1000, interval = ''5min''\<rparr>,
             \<lparr>stock_symbol = ''AAPL'',
               timestamp = \<lparr>ordinal = 738888, hour = 10, minute = 5, second = 0,
                             microsecond = 0\<rparr>,
               open_price = NaN, high_price = Fin 101, low_price = Fin 99,
               close_price = Fin 100, volume = 1000, interval = ''5min''\<rparr>]
   \<and> \<not> fl_lt (Fin 0) NaN
   \<and> \<not> fl_le (py_max NaN (Fin 100)) (Fin 101)"
proof -
  have "validate_price_data NaN (Fin 101) (Fin 99) (Fin 100) 1000"
    by (simp add: validate_price_data_def py_max_def py_min_def)
  moreover have "price_objects_loop example_lib ''AAPL'' ''5min'' [good_item, nan_item]
      = [\<lparr>stock_symbol = ''AAPL'',
               timestamp = \<lparr>ordinal = 738888, hour = 10, minute = 0, second = 0,
                             microsecond = 0\<rparr>,
               open_price = Fin 100, high_price = Fin 101, low_price = Fin 99,
               close_price = Fin 100, volume = 1000, interval = ''5min''\<rparr>,
             \<lparr>stock_symbol = ''AAPL'',
               timestamp = \<lparr>ordinal = 738888, hour = 10, minute = 5, second = 0,
                             microsecond = 0\<rparr>,
               open_price = NaN, high_price = Fin 101, low_price = Fin 99,
               close_price = Fin 100, volume = 1000, interval = ''5min''\<rparr>]"
    by (simp add: price_objects_loop_Cons item_accepted_def good_item_record nan_item_record
          del: price_objects_loop.simps(2))
  ultimately show ?thesis
    by (simp add: create_price_objects_dict py_max_def)
qed

subsection \<open>What holds of every produced record\<close>

text \<open>
  Every record of the output has passed \<open>_validate_price_data\<close>, so by
  \<open>validate_price_data_sound\<close> it satisfies the five conditions whenever none of its
  prices is NaN; an item that is not accepted is skipped without ending the loop, so of
  ten items with one that is not accepted nine records are produced.
\<close>

lemma create_price_object_validated:
  assumes "create_price_object lib sy ivl ts pd = Inr (Some r)"
  shows "validate_price_data (open_price r) (high_price r) (low_price r) (close_price r)
           (volume r)
         \<and> stock_symbol r = sy \<and> interval r = ivl"
  using assms
  by (auto simp: create_price_object_def split: sum.splits json.splits if_splits)

lemma produced_records_validated:
  "r \<in> set (price_objects_loop lib sy ivl items) \<Longrightarrow>
   validate_price_data (open_price r) (high_price r) (low_price r) (close_price r) (volume r)"
proof (induction items)
  case Nil
  then show ?case by simp
next
  case (Cons item items)
  obtain ts pd where item: "item = (ts, pd)" by (cases item)
  show ?case
  proof (cases "create_price_object lib sy ivl ts pd")
    case (Inl e)
    with Cons item show ?thesis by simp
  next
    case (Inr res)
    show ?thesis
    proof (cases res)
      case None
      with Cons item Inr show ?thesis by simp
    next
      case (Some r')
      with Cons item Inr create_price_object_validated [of lib sy ivl ts pd r']
      show ?thesis by auto
    qed
  qed
qed

lemma one_invalid_of_ten:
  assumes "length items = 10"
    and "length (filter (\<lambda>item. \<not> item_accepted lib sy ivl item) items) = 1"
  shows "length (price_objects_loop lib sy ivl items) = 9"
  using assms sum_length_filter_compl [of "item_accepted lib sy ivl" items]
  by (simp add: length_price_objects_loop)

section \<open>Properties of the extractor\<close>

lemma extract_series_body:
  "extract_intraday_data sl (\<lambda>s i. series_body items) utcnow sy ''5min'' =
     (if items = [] then None
      else Some \<lparr>rd_symbol = Some (str_upper sl sy), rd_interval = Some ''5min'',
                 rd_time_series = Some (JDict items),
                 rd_metadata = Some (JDict
                   [(''last_refreshed'', JStr ''2024-01-03 10:05:00''),
                    (''timezone'', JStr ''US/Eastern''),
                    (''extraction_timestamp'', JStr (isoformat sl utcnow))])\<rparr>)"
  by (simp add: extract_intraday_data_def series_body_def dict_get_def)

text \<open>
  C5, as the code has it. The extractor has two outcomes, a payload or \<open>None\<close>. A
  well-formed response with an empty series gives \<open>None\<close>, the value that a provider
  error and a failed request give; so no payload carries an empty series.
\<close>

theorem extract_empty_series_counterexample:
  "extract_intraday_data example_strlib (\<lambda>s i. series_body []) (wednesday 10) ''AAPL'' ''5min''
     = None
   \<and> extract_intraday_data example_strlib (\<lambda>s i. error_body) (wednesday 10) ''AAPL'' ''5min''
     = None
   \<and> extract_intraday_data example_strlib (\<lambda>s i. RequestFailed) (wednesday 10) ''AAPL'' ''5min''
     = None"
  by (simp add: extract_series_body) (simp add: extract_intraday_data_def error_body_def)

text \<open>
  C5, amended. For every response the extractor returns either a payload or \<open>None\<close>.
  It returns a payload exactly when the body is a JSON object without
  \<open>Error Message\<close> and without \<open>Note\<close>, whose series under
  \<open>Time Series (interval)\<close> is non-empty and has a length, and whose
  \<open>Meta Data\<close>, if any, is an object; the payload carries that non-empty series, the
  upper-cased symbol and the interval. Every other response gives \<open>None\<close>: a failed
  request, a body that is not JSON, a provider error, a rate-limit note, a missing
  series and an empty series alike.
\<close>

theorem extract_payload_iff_nonempty_series:
  "(extract_intraday_data sl network utcnow sy ivl \<noteq> None) =
     (\<exists>kvs series meta. network (str_upper sl sy) ivl = Body (JDict kvs)
        \<and> map_of kvs ''Error Message'' = None \<and> map_of kvs ''Note'' = None
        \<and> map_of kvs (''Time Series ('' @ ivl @ '')'') = Some series
        \<and> truthy series \<and> (\<exists>n. py_len series = Inr n)
        \<and> dict_get kvs ''Meta Data'' (JDict []) = JDict meta)
   \<and> (\<forall>raw. extract_intraday_data sl network utcnow sy ivl = Some raw \<longrightarrow>
         (\<exists>series. rd_time_series raw = Some series \<and> truthy series)
         \<and> rd_symbol raw = Some (str_upper sl sy) \<and> rd_interval raw = Some ivl)"
proof (cases "network (str_upper sl sy) ivl")
  case RequestFailed
  then show ?thesis by (simp add: extract_intraday_data_def)
next
  case BadBody
  then show ?thesis by (simp add: extract_intraday_data_def)
next
  case (Body data)
  show ?thesis
  proof (cases "\<exists>kvs. data = JDict kvs")
    case False
    then show ?thesis
      using Body by (cases data) (simp_all add: extract_intraday_data_def)
  next
    case True
    then obtain kvs where kvs: "data = JDict kvs" by blast
    show ?thesis
    proof (cases "map_of kvs (''Time Series ('' @ ivl @ '')'')")
      case None
      then show ?thesis
        using Body kvs by (simp add: extract_intraday_data_def)
    next
      case (Some series)
      show ?thesis
      proof (cases "dict_get kvs ''Meta Data'' (JDict [])")
        case (JDict meta)
        then show ?thesis
          using Body kvs Some
          by (auto simp: extract_intraday_data_def split: sum.splits)
      qed (use Body kvs Some in \<open>auto simp: extract_intraday_data_def split: sum.splits\<close>)
    qed
  qed
qed

theorem extract_payload_iff_nonempty_series_witness:
  "extract_intraday_data example_strlib (\<lambda>s i. series_body [good_item]) (wednesday 10)
     ''AAPL'' ''5min'' \<noteq> None"
proof -
  let ?kvs = "[(''Meta Data'', JDict [(''3. Last Refreshed'', JStr ''2024-01-03 10:05:00''),
                                       (''6. Time Zone'', JStr ''US/Eastern'')]),
               (''Time Series (5min)'', JDict [good_item])]"
  have "\<exists>kvs series meta.
      (\<lambda>s i. series_body [good_item]) (str_upper example_strlib ''AAPL'') ''5min''
        = Body (JDict kvs)
      \<and> map_of kvs ''Error Message'' = None \<and> map_of kvs ''Note'' = None
      \<and> map_of kvs (''Time Series ('' @ ''5min'' @ '')'') = Some series
      \<and> truthy series \<and> (\<exists>n. py_len series = Inr n)
      \<and> dict_get kvs ''Meta Data'' (JDict []) = JDict meta"
    by (intro exI [of _ ?kvs] exI [of _ "JDict [good_item]"]
          exI [of _ "[(''3. Last Refreshed'', JStr ''2024-01-03 10:05:00''),
                      (''6. Time Zone'', JStr ''US/Eastern'')]"])
       (simp add: series_body_def dict_get_def)
  with extract_payload_iff_nonempty_series
    [of example_strlib "\<lambda>s i. series_body [good_item]" "wednesday 10" "''AAPL''" "''5min''"]
  show ?thesis by blast
qed

section \<open>Properties of the loader\<close>

subsection \<open>What a statement leaves behind\<close>

lemma execute_query_Inl:
  assumes "execute_query stmt w = (Inl e, w')"
  shows "\<exists>fs. w' = w\<lparr>faults := fs\<rparr>"
proof -
  have "w = w\<lparr>faults := faults w\<rparr>" by simp
  then have same: "\<exists>fs. w = w\<lparr>faults := fs\<rparr>" by (rule exI)
  from assms have "w' = w \<or> (\<exists>fs. w' = w\<lparr>faults := fs\<rparr>)"
    by (auto simp: execute_query_def run_statement_def
          split: if_splits list.splits option.splits sum.splits prod.splits)
  with same show ?thesis by auto
qed

lemma execute_query_Inr:
  assumes "execute_query stmt w = (Inr r, w')"
  shows "\<exists>fs. stmt (w\<lparr>faults := fs\<rparr>) = Inr (r, w')"
proof (cases "faults w")
  case Nil
  with assms have "stmt w = Inr (r, w')"
    by (simp add: execute_query_def run_statement_def
          split: if_splits sum.splits prod.splits)
  then have "stmt (w\<lparr>faults := faults w\<rparr>) = Inr (r, w')" by simp
  then show ?thesis by blast
next
  case (Cons f fs)
  with assms have "stmt (w\<lparr>faults := fs\<rparr>) = Inr (r, w')"
    by (simp add: execute_query_def run_statement_def
          split: if_splits option.splits sum.splits prod.splits)
  then show ?thesis by blast
qed

lemma execute_query_no_faults:
  "connection_pool w \<Longrightarrow> faults w = [] \<Longrightarrow> execute_query stmt w = run_statement stmt w"
  by (simp add: execute_query_def)

lemma stored_prices_faults [simp]:
  "stored_prices (w\<lparr>faults := fs\<rparr>) p = stored_prices w p"
  by (simp add: stored_prices_def split: option.splits)

subsection \<open>One upsert\<close>

lemma same_key_price_key:
  "same_key sy ts ivl r \<longleftrightarrow> price_key r = (sy, ts, ivl)"
  by (auto simp: same_key_def price_key_def)

text \<open>The rows after a load of \<open>p\<close>: untouched by a failed load, upserted by one that succeeds.\<close>

lemma load_single_price_record_rows:
  assumes "load_single_price_record p w = (ok, w')"
  shows "(\<not> ok \<longrightarrow> stock_prices_intraday w' = stock_prices_intraday w)
       \<and> (ok \<longrightarrow> (\<exists>ns. stored_prices w p = Some ns
             \<and> (if find (same_key (stock_symbol p) (timestamp p) (interval p))
                       (stock_prices_intraday w) \<noteq> None
                  then stock_prices_intraday w'
                         = updated_rows ns p (clock w) (stock_prices_intraday w)
                  else \<exists>k. stored_key p = Some k
                         \<and> stock_prices_intraday w' = stock_prices_intraday w
                             @ [inserted_row k ns p (clock w) (current_timestamp w)])))"
proof -
  let ?sel = "select_price (stock_symbol p) (timestamp p) (interval p)"
  obtain r1 w1 where q1: "execute_query ?sel w = (r1, w1)" by (cases "execute_query ?sel w")
  show ?thesis
  proof (cases r1)
    case (Inl e)
    with q1 execute_query_Inl [of ?sel w e w1] assms show ?thesis
      by (auto simp: load_single_price_record_def)
  next
    case (Inr existing)
    with q1 execute_query_Inr [of ?sel w existing w1]
    obtain fs where sel: "?sel (w\<lparr>faults := fs\<rparr>) = Inr (existing, w1)" by blast
    then have w1: "w1 = w\<lparr>faults := fs\<rparr>"
      and ex: "existing = find (same_key (stock_symbol p) (timestamp p) (interval p))
                           (stock_prices_intraday w)"
      by (auto simp: select_price_def split: if_splits)
    show ?thesis
    proof (cases "existing = None")
      case False
      let ?upd = "update_price p (clock w1)"
      obtain r2 w2 where q2: "execute_query ?upd w1 = (r2, w2)" by (cases "execute_query ?upd w1")
      show ?thesis
      proof (cases r2)
        case (Inl e)
        with q1 q2 Inr False execute_query_Inl [of ?upd w1 e w2] assms w1 show ?thesis
          by (auto simp: load_single_price_record_def)
      next
        case (Inr u)
        with q2 execute_query_Inr [of ?upd w1 u w2]
        obtain fs2 where "?upd (w1\<lparr>faults := fs2\<rparr>) = Inr (u, w2)" by blast
        then obtain ns where "stored_prices w p = Some ns"
          "stock_prices_intraday w2 = updated_rows ns p (clock w) (stock_prices_intraday w)"
          using w1 by (auto simp: update_price_def split: option.splits if_splits)
        moreover have "ok" "w' = w2"
          using assms q1 q2 \<open>r1 = Inr existing\<close> False Inr
          by (auto simp: load_single_price_record_def)
        ultimately show ?thesis using False ex by simp
      qed
    next
      case True
      let ?ins = "insert_price p (clock w1)"
      obtain r2 w2 where q2: "execute_query ?ins w1 = (r2, w2)" by (cases "execute_query ?ins w1")
      show ?thesis
      proof (cases r2)
        case (Inl e)
        with q1 q2 Inr True execute_query_Inl [of ?ins w1 e w2] assms w1 show ?thesis
          by (auto simp: load_single_price_record_def)
      next
        case (Inr u)
        with q2 execute_query_Inr [of ?ins w1 u w2]
        obtain fs2 where "?ins (w1\<lparr>faults := fs2\<rparr>) = Inr (u, w2)" by blast
        then obtain ns k where "stored_prices w p = Some ns" "stored_key p = Some k"
          "stock_prices_intraday w2 = stock_prices_intraday w
             @ [inserted_row k ns p (clock w) (current_timestamp w)]"
          using w1 by (auto simp: insert_price_def split: option.splits if_splits)
        moreover have "ok" "w' = w2"
          using assms q1 q2 \<open>r1 = Inr existing\<close> True Inr
          by (auto simp: load_single_price_record_def)
        ultimately show ?thesis using True ex by simp
      qed
    qed
  qed
qed

lemma find_same_key_None:
  "find (same_key sy ts ivl) rows = None \<longleftrightarrow> (sy, ts, ivl) \<notin> set (map price_key rows)"
  by (auto simp: find_None_iff same_key_price_key image_iff)

lemma keys_updated_rows:
  "map price_key (updated_rows ns p now rows) = map price_key rows"
  by (cases ns) (simp add: updated_rows_def price_key_def comp_def)

lemma fits_key_stored_key:
  "fits_key p \<Longrightarrow> stored_key p = Some (stock_symbol p, interval p)"
  by (simp add: fits_key_def stored_key_def varchar_def)

lemma key_inserted_row:
  "price_key (inserted_row (stock_symbol p, interval p) ns p now db_now)
     = (stock_symbol p, timestamp p, interval p)"
  by (cases ns) (simp add: inserted_row_def price_key_def)

lemma load_single_price_record_unique_keys:
  assumes "unique_keys w" "fits_key p"
  shows "unique_keys (snd (load_single_price_record p w))"
proof -
  obtain ok w' where l: "load_single_price_record p w = (ok, w')"
    by (cases "load_single_price_record p w")
  let ?found = "find (same_key (stock_symbol p) (timestamp p) (interval p))
                  (stock_prices_intraday w)"
  have "distinct (map price_key (stock_prices_intraday w'))"
  proof (cases ok)
    case False
    with load_single_price_record_rows [OF l] assms(1) show ?thesis
      by (simp add: unique_keys_def)
  next
    case True
    show ?thesis
    proof (cases "?found = None")
      case found: False
      with True load_single_price_record_rows [OF l]
      obtain ns where "stock_prices_intraday w'
          = updated_rows ns p (clock w) (stock_prices_intraday w)"
        by auto
      with assms(1) show ?thesis
        by (simp add: unique_keys_def keys_updated_rows)
    next
      case found: True
      with True load_single_price_record_rows [OF l] fits_key_stored_key [OF assms(2)]
      obtain ns where "stock_prices_intraday w' = stock_prices_intraday w
          @ [inserted_row (stock_symbol p, interval p) ns p (clock w) (current_timestamp w)]"
        by auto
      with assms(1) found show ?thesis
        by (simp add: unique_keys_def key_inserted_row find_same_key_None)
    qed
  qed
  with l show ?thesis by (simp add: unique_keys_def)
qed

lemma load_sequence_unique_keys:
  "unique_keys w \<Longrightarrow> list_all fits_key ps \<Longrightarrow> unique_keys (load_sequence ps w)"
  by (induction ps arbitrary: w) (simp_all add: load_single_price_record_unique_keys)

lemma load_prices_loop_sequence:
  "snd (load_prices_loop ps n w) = load_sequence ps w"
proof (induction ps arbitrary: n w)
  case Nil
  show ?case by simp
next
  case (Cons p ps)
  obtain ok w1 where l: "load_single_price_record p w = (ok, w1)"
    by (cases "load_single_price_record p w")
  show ?case
    by (cases ok) (simp_all add: l Cons.IH)
qed

lemma load_intraday_prices_sequence:
  "snd (load_intraday_prices sy ps w) = load_sequence ps w"
  by (cases ps) (simp_all add: load_intraday_prices_def load_prices_loop_sequence
        del: load_prices_loop.simps load_sequence.simps(2))

lemma unique_keys_rows_for:
  assumes "unique_keys w"
  shows "length (rows_for sy ts ivl w) \<le> 1"
proof -
  have "distinct (map price_key rows) \<Longrightarrow>
        length (filter (\<lambda>r. price_key r = k) rows) \<le> 1" for rows k
  proof (induction rows)
    case Nil
    show ?case by simp
  next
    case (Cons r rows)
    then have "price_key r = k \<Longrightarrow> filter (\<lambda>r. price_key r = k) rows = []"
      by (auto simp: filter_empty_conv image_iff)
    with Cons show ?case by auto
  qed
  from this [of "stock_prices_intraday w" "(sy, ts, ivl)"] assms
  show ?thesis
    by (simp add: rows_for_def unique_keys_def same_key_price_key [abs_def])
qed

lemma rows_for_nonempty_iff:
  "rows_for sy ts ivl w \<noteq> [] \<longleftrightarrow> find (same_key sy ts ivl) (stock_prices_intraday w) \<noteq> None"
  by (auto simp: rows_for_def filter_empty_conv find_None_iff)

lemma filter_updated_rows:
  "filter (same_key (stock_symbol p) (timestamp p) (interval p))
     (updated_rows (o_n, h_n, l_n, c_n) p now rows)
   = map (\<lambda>r. r\<lparr>pr_open_price := o_n, pr_high_price := h_n,
                  pr_low_price := l_n, pr_close_price := c_n,
                  pr_volume := volume p, pr_updated_at := now\<rparr>)
       (filter (same_key (stock_symbol p) (timestamp p) (interval p)) rows)"
  by (induction rows) (auto simp: updated_rows_def same_key_def)

lemma filter_inserted_row:
  "filter (same_key (stock_symbol p) (timestamp p) (interval p))
     (rows @ [inserted_row (stock_symbol p, interval p) ns p now db_now])
   = filter (same_key (stock_symbol p) (timestamp p) (interval p)) rows
       @ [inserted_row (stock_symbol p, interval p) ns p now db_now]"
  using key_inserted_row [of p ns now db_now] by (simp add: same_key_price_key)

lemma load_single_price_record_frame:
  "\<exists>fs rows. snd (load_single_price_record p w)
      = w\<lparr>faults := fs, stock_prices_intraday := rows\<rparr>"
proof -
  have keep: "\<exists>fs rows. v\<lparr>faults := fs0\<rparr> = v\<lparr>faults := fs, stock_prices_intraday := rows\<rparr>"
    for v :: world and fs0
    by (intro exI [of _ fs0] exI [of _ "stock_prices_intraday v"]) simp
  let ?sel = "select_price (stock_symbol p) (timestamp p) (interval p)"
  obtain r1 w1 where q1: "execute_query ?sel w = (r1, w1)" by (cases "execute_query ?sel w")
  have w1: "\<exists>fs. w1 = w\<lparr>faults := fs\<rparr>"
  proof (cases r1)
    case (Inl e)
    with q1 execute_query_Inl [of ?sel w e w1] show ?thesis by simp
  next
    case (Inr existing)
    with q1 execute_query_Inr [of ?sel w existing w1] show ?thesis
      by (auto simp: select_price_def split: if_splits)
  qed
  then obtain fs1 where fs1: "w1 = w\<lparr>faults := fs1\<rparr>" by blast
  have stmt: "\<exists>fs rows. w2 = w\<lparr>faults := fs, stock_prices_intraday := rows\<rparr>"
    if "execute_query stmt w1 = (r2, w2)"
      and "\<And>v u v'. stmt v = Inr (u, v') \<Longrightarrow> \<exists>rows. v' = v\<lparr>stock_prices_intraday := rows\<rparr>"
    for stmt :: "unit statement" and r2 w2
  proof (cases r2)
    case (Inl e)
    with that(1) execute_query_Inl [of stmt w1 e w2] fs1 keep [where v = w] show ?thesis by auto
  next
    case (Inr u)
    with that(1) execute_query_Inr [of stmt w1 u w2]
    obtain fs2 where "stmt (w1\<lparr>faults := fs2\<rparr>) = Inr (u, w2)" by blast
    from that(2) [OF this] fs1 show ?thesis by auto
  qed
  let ?upd = "update_price p (clock w1)" and ?ins = "insert_price p (clock w1)"
  obtain r2 w2 where q2: "execute_query ?upd w1 = (r2, w2)" by (cases "execute_query ?upd w1")
  obtain r3 w3 where q3: "execute_query ?ins w1 = (r3, w3)" by (cases "execute_query ?ins w1")
  have upd: "\<exists>fs rows. w2 = w\<lparr>faults := fs, stock_prices_intraday := rows\<rparr>"
    using q2 by (rule stmt) (auto simp: update_price_def split: option.splits if_splits)
  have ins: "\<exists>fs rows. w3 = w\<lparr>faults := fs, stock_prices_intraday := rows\<rparr>"
    using q3 by (rule stmt) (auto simp: insert_price_def split: option.splits if_splits)
  have sel: "\<exists>fs rows. w1 = w\<lparr>faults := fs, stock_prices_intraday := rows\<rparr>"
    using fs1 keep [where v = w and ?fs0.0 = fs1] by simp
  show ?thesis
    using q1 q2 q3 sel upd ins
    by (auto simp: load_single_price_record_def split: sum.splits)
qed

lemma load_single_price_record_decimal:
  "load_single_price_record p w = (ok, w') \<Longrightarrow> decimal_10_4 w' = decimal_10_4 w"
  using load_single_price_record_frame [of p w] by auto

text \<open>
  C2, as the code has it. The price table is created without a uniqueness constraint,
  and the loader updates every row it finds under the key. In a table that holds two
  rows under one key, loading a record under that key and then another, both with
  success, leaves the two rows.
\<close>

theorem duplicate_rows_counterexample:
  "length (rows_for ''AAPL'' (wednesday 10) ''5min'' duplicate_world) = 2
   \<and> fst (load_single_price_record (price_at_10 100) duplicate_world)
   \<and> fst (load_single_price_record (price_at_10 105)
            (snd (load_single_price_record (price_at_10 100) duplicate_world)))
   \<and> length (rows_for ''AAPL'' (wednesday 10) ''5min''
        (snd (load_single_price_record (price_at_10 105)
           (snd (load_single_price_record (price_at_10 100) duplicate_world))))) = 2"
  by code_simp

text \<open>
  A key that does not fit its columns is not stored as it is. The interval of
  \<open>padded_price\<close> is cut to ten characters by the insert; the lookup of the second
  load compares the whole interval, finds no row and inserts again. From a table without
  rows this leaves no row under the key of the record and two rows under the key that was
  stored.
\<close>

lemma padded_key_example:
  "fst (load_single_price_record (padded_price 100) stocked_world)
   \<and> fst (load_single_price_record (padded_price 105)
            (snd (load_single_price_record (padded_price 100) stocked_world)))
   \<and> rows_for ''AAPL'' (wednesday 10) padded_interval
        (snd (load_single_price_record (padded_price 105)
           (snd (load_single_price_record (padded_price 100) stocked_world)))) = []
   \<and> length (rows_for ''AAPL'' (wednesday 10) (take 10 padded_interval)
        (snd (load_single_price_record (padded_price 105)
           (snd (load_single_price_record (padded_price 100) stocked_world))))) = 2"
  by code_simp

text \<open>
  C2, amended. Take a price table in which no key (symbol, timestamp, interval) has more
  than one row, as in the empty table, and records whose symbol and interval fit their
  \<open>VARCHAR(10)\<close> columns. When a record \<open>r\<close> is loaded and then a record
  \<open>r'\<close> with the same key, and both loads report success, the table holds exactly one
  row under that key, and the row has the open, high, low and close prices of \<open>r'\<close>
  as a \<open>DECIMAL(10,4)\<close> column stores them, and the volume of \<open>r'\<close>. And after any
  sequence of loads of such records, whether they succeed or fail, no key has more than
  one row; \<open>load_intraday_prices\<close> is such a sequence.
\<close>

theorem idempotent_upsert:
  assumes "unique_keys w"
  shows "(fits_key r
          \<and> load_single_price_record r w = (True, w1)
          \<and> load_single_price_record r' w1 = (True, w2)
          \<and> stock_symbol r' = stock_symbol r \<and> timestamp r' = timestamp r
          \<and> interval r' = interval r \<longrightarrow>
            (\<exists>row. rows_for (stock_symbol r) (timestamp r) (interval r) w2 = [row]
               \<and> decimal_10_4 w (open_price r') = Some (pr_open_price row)
               \<and> decimal_10_4 w (high_price r') = Some (pr_high_price row)
               \<and> decimal_10_4 w (low_price r') = Some (pr_low_price row)
               \<and> decimal_10_4 w (close_price r') = Some (pr_close_price row)
               \<and> pr_volume row = volume r'))
         \<and> (\<forall>ps sy ts ivl. list_all fits_key ps \<longrightarrow>
               length (rows_for sy ts ivl (load_sequence ps w)) \<le> 1)
         \<and> (\<forall>ps sy' sy ts ivl. list_all fits_key ps \<longrightarrow>
               length (rows_for sy ts ivl (snd (load_intraday_prices sy' ps w))) \<le> 1)"
proof (intro conjI impI allI)
  assume h: "fits_key r
          \<and> load_single_price_record r w = (True, w1)
          \<and> load_single_price_record r' w1 = (True, w2)
          \<and> stock_symbol r' = stock_symbol r \<and> timestamp r' = timestamp r
          \<and> interval r' = interval r"
  let ?key = "same_key (stock_symbol r) (timestamp r) (interval r)"
  let ?rows = "\<lambda>w. rows_for (stock_symbol r) (timestamp r) (interval r) w"
  have fits: "fits_key r" using h by simp
  have u1: "unique_keys w1"
    using load_single_price_record_unique_keys [OF assms fits] h by simp
  have cast: "decimal_10_4 w1 = decimal_10_4 w"
    using h load_single_price_record_decimal [of r w True w1] by simp
  obtain ns where ns:
    "if find ?key (stock_prices_intraday w) \<noteq> None
     then stock_prices_intraday w1 = updated_rows ns r (clock w) (stock_prices_intraday w)
     else stock_prices_intraday w1 = stock_prices_intraday w
            @ [inserted_row (stock_symbol r, interval r) ns r (clock w) (current_timestamp w)]"
  proof (cases "find ?key (stock_prices_intraday w) = None")
    case True
    with load_single_price_record_rows [of r w True w1] h fits_key_stored_key [OF fits]
    obtain ns where "stock_prices_intraday w1 = stock_prices_intraday w
        @ [inserted_row (stock_symbol r, interval r) ns r (clock w) (current_timestamp w)]"
      by auto
    with True that show ?thesis by simp
  next
    case False
    with load_single_price_record_rows [of r w True w1] h
    obtain ns where "stock_prices_intraday w1
        = updated_rows ns r (clock w) (stock_prices_intraday w)"
      by auto
    with False that show ?thesis by simp
  qed
  have "?rows w1 \<noteq> []"
  proof (cases "find ?key (stock_prices_intraday w) = None")
    case True
    with ns show ?thesis
      by (simp add: rows_for_def same_key_price_key key_inserted_row)
  next
    case False
    then have "?rows w \<noteq> []"
      by (simp add: rows_for_nonempty_iff)
    with False ns show ?thesis
      by (cases ns) (simp add: rows_for_def filter_updated_rows)
  qed
  moreover have "length (?rows w1) \<le> 1"
    using u1 by (rule unique_keys_rows_for)
  ultimately obtain row1 where row1: "?rows w1 = [row1]"
    by (cases "?rows w1") auto
  then have found: "find (same_key (stock_symbol r') (timestamp r') (interval r'))
                      (stock_prices_intraday w1) \<noteq> None"
    using h rows_for_nonempty_iff [of "stock_symbol r" "timestamp r" "interval r" w1] by simp
  obtain o_n h_n l_n c_n where ns': "stored_prices w1 r' = Some (o_n, h_n, l_n, c_n)"
    "stock_prices_intraday w2
       = updated_rows (o_n, h_n, l_n, c_n) r' (clock w1) (stock_prices_intraday w1)"
    using load_single_price_record_rows [of r' w1 True w2] h found by auto
  have "?rows w2 = [row1\<lparr>pr_open_price := o_n, pr_high_price := h_n,
                       pr_low_price := l_n, pr_close_price := c_n,
                       pr_volume := volume r', pr_updated_at := clock w1\<rparr>]"
    using ns'(2) filter_updated_rows [of r' o_n h_n l_n c_n "clock w1" "stock_prices_intraday w1"]
      h row1
    by (simp add: rows_for_def)
  moreover have "decimal_10_4 w (open_price r') = Some o_n"
    "decimal_10_4 w (high_price r') = Some h_n"
    "decimal_10_4 w (low_price r') = Some l_n"
    "decimal_10_4 w (close_price r') = Some c_n"
    using ns'(1) cast by (auto simp: stored_prices_def split: option.splits)
  ultimately show "\<exists>row. ?rows w2 = [row]
               \<and> decimal_10_4 w (open_price r') = Some (pr_open_price row)
               \<and> decimal_10_4 w (high_price r') = Some (pr_high_price row)
               \<and> decimal_10_4 w (low_price r') = Some (pr_low_price row)
               \<and> decimal_10_4 w (close_price r') = Some (pr_close_price row)
               \<and> pr_volume row = volume r'"
    by simp
next
  fix ps sy ts ivl
  assume "list_all fits_key ps"
  with assms show "length (rows_for sy ts ivl (load_sequence ps w)) \<le> 1"
    by (intro unique_keys_rows_for load_sequence_unique_keys)
next
  fix ps sy' sy ts ivl
  assume "list_all fits_key ps"
  with assms show "length (rows_for sy ts ivl (snd (load_intraday_prices sy' ps w))) \<le> 1"
    unfolding load_intraday_prices_sequence
    by (intro unique_keys_rows_for load_sequence_unique_keys)
qed

theorem idempotent_upsert_witness:
  "(\<exists>row. rows_for ''AAPL'' (wednesday 10) ''5min''
            (snd (load_single_price_record (price_at_10 105)
               (snd (load_single_price_record (price_at_10 100) stocked_world)))) = [row]
         \<and> pr_open_price row = Numeric 105 \<and> pr_high_price row = Numeric 106
         \<and> pr_low_price row = Numeric 104 \<and> pr_close_price row = Numeric 105
         \<and> pr_volume row = 1000)
   \<and> length (rows_for ''AAPL'' (wednesday 10) ''5min''
        (load_sequence [price_at_10 100, price_at_10 105, price_at_10 110] stocked_world)) \<le> 1"
proof -
  let ?r = "price_at_10 100" and ?r' = "price_at_10 105"
  let ?w1 = "snd (load_single_price_record ?r stocked_world)"
  let ?w2 = "snd (load_single_price_record ?r' ?w1)"
  have u: "unique_keys stocked_world"
    by (simp add: unique_keys_def stocked_world_def empty_world_def)
  have fits: "fits_key (price_at_10 x)" for x
    by (simp add: fits_key_def price_at_10_def)
  have "fst (load_single_price_record ?r stocked_world)" by code_simp
  then have l1: "load_single_price_record ?r stocked_world = (True, ?w1)"
    by (cases "load_single_price_record ?r stocked_world") simp
  have "fst (load_single_price_record ?r' ?w1)" by code_simp
  then have l2: "load_single_price_record ?r' ?w1 = (True, ?w2)"
    by (cases "load_single_price_record ?r' ?w1") simp
  have keys: "stock_symbol ?r' = stock_symbol ?r" "timestamp ?r' = timestamp ?r"
    "interval ?r' = interval ?r"
    by (simp_all add: price_at_10_def)
  have cast: "decimal_10_4 stocked_world (Fin 105) = Some (Numeric 105)"
    "decimal_10_4 stocked_world (Fin 106) = Some (Numeric 106)"
    "decimal_10_4 stocked_world (Fin 104) = Some (Numeric 104)"
    by (simp_all add: stocked_world_def empty_world_def example_decimal_def)
  note inst = idempotent_upsert [OF u, of ?r ?w1 ?r' ?w2]
  from inst l1 l2 keys fits
  have "\<exists>row. rows_for (stock_symbol ?r) (timestamp ?r) (interval ?r) ?w2 = [row]
               \<and> decimal_10_4 stocked_world (open_price ?r') = Some (pr_open_price row)
               \<and> decimal_10_4 stocked_world (high_price ?r') = Some (pr_high_price row)
               \<and> decimal_10_4 stocked_world (low_price ?r') = Some (pr_low_price row)
               \<and> decimal_10_4 stocked_world (close_price ?r') = Some (pr_close_price row)
               \<and> pr_volume row = volume ?r'"
    by blast
  then have "\<exists>row. rows_for ''AAPL'' (wednesday 10) ''5min'' ?w2 = [row]
         \<and> pr_open_price row = Numeric 105 \<and> pr_high_price row = Numeric 106
         \<and> pr_low_price row = Numeric 104 \<and> pr_close_price row = Numeric 105
         \<and> pr_volume row = 1000"
    using cast by (auto simp: price_at_10_def)
  moreover from inst
  have "list_all fits_key [price_at_10 100, price_at_10 105, price_at_10 110] \<longrightarrow>
        length (rows_for ''AAPL'' (wednesday 10) ''5min''
          (load_sequence [price_at_10 100, price_at_10 105, price_at_10 110] stocked_world)) \<le> 1"
    by blast
  ultimately show ?thesis
    using fits by simp
qed

subsection \<open>The job log of a load\<close>

lemma load_stock_first_fault:
  assumes "connection_pool w" "faults w = Some msg # fs"
  shows "load_stock stock w = (False, w\<lparr>faults := fs\<rparr>)"
  using assms by (simp add: load_stock_def execute_query_def)

text \<open>
  C3 at a failing input. The pool is initialised, the tables are empty, and the first
  statement, the lookup of the stock, fails. \<open>load_stock\<close> returns \<open>False\<close>, and
  \<open>load_transformed_data\<close> returns its failure result before any call of
  \<open>_log_etl_job\<close>: the job log is as empty as before.
\<close>

theorem stock_failure_appends_no_log_row:
  "load_transformed_data (Some example_transformed)
     (empty_world\<lparr>faults := [Some ''connection already closed'']\<rparr>)
     = (no_result\<lparr>lr_success := Some False, lr_symbol := Some ''AAPL'',
          lr_error := Some ''Failed to load stock information''\<rparr>, empty_world)
   \<and> etl_job_logs (empty_world\<lparr>faults := [Some ''connection already closed'']\<rparr>) = []
   \<and> etl_job_logs (snd (load_transformed_data (Some example_transformed)
        (empty_world\<lparr>faults := [Some ''connection already closed'']\<rparr>))) = []"
proof -
  let ?w = "empty_world\<lparr>faults := [Some ''connection already closed'']\<rparr>"
  have "connection_pool ?w" "faults ?w = Some ''connection already closed'' # []"
    by (simp_all add: empty_world_def)
  from load_stock_first_fault [OF this]
  have stock: "load_stock s ?w = (False, empty_world)" for s
    by (simp add: empty_world_def)
  have "load_transformed_body example_transformed ?w
     = (Inr (no_result\<lparr>lr_success := Some False, lr_symbol := Some ''AAPL'',
          lr_error := Some ''Failed to load stock information''\<rparr>), empty_world)"
    by (simp add: load_transformed_body_def example_transformed_def stock)
  then have "load_transformed_data (Some example_transformed) ?w
     = (no_result\<lparr>lr_success := Some False, lr_symbol := Some ''AAPL'',
          lr_error := Some ''Failed to load stock information''\<rparr>, empty_world)"
    by (simp add: load_transformed_data_def td_empty_def example_transformed_def)
  then show ?thesis
    by (simp add: empty_world_def)
qed

text \<open>
  The same return is taken without any failure of the database when the stock is not yet
  in the table: \<open>load_stock\<close> then fails on \<open>stock.name\<close>. On the other two paths
  of \<open>load_transformed_data\<close> the row is written: for a registered stock, with every
  statement succeeding, a complete input leaves one \<open>SUCCESS\<close> row, and an input
  without its \<open>'stock'\<close> key leaves one \<open>FAILED\<close> row with the message of the
  \<open>KeyError\<close>.
\<close>

lemma example_load_job_log:
  "etl_job_logs (snd (load_transformed_data (Some example_transformed) empty_world)) = []
   \<and> lr_success (fst (load_transformed_data (Some example_transformed) empty_world))
       = Some False
   \<and> map (\<lambda>row. (lg_job_name row, lg_status row, lg_total_records row,
                 lg_records_processed row, lg_error_message row))
     (etl_job_logs (snd (load_transformed_data (Some example_transformed) stocked_world)))
   = [(''intraday_etl_AAPL'', ''SUCCESS'', 1, 1, None)]
   \<and> map (\<lambda>row. (lg_job_name row, lg_status row, lg_total_records row,
                 lg_records_processed row, lg_error_message row))
     (etl_job_logs (snd (load_transformed_data
        (Some (example_transformed\<lparr>td_stock := None\<rparr>)) stocked_world)))
   = [(''intraday_etl_AAPL'', ''FAILED'', 0, 0, Some (quoted ''stock''))]"
  by code_simp

subsection \<open>The job log in general\<close>

text \<open>
  The statements of \<open>load_stock\<close> and of the price loads leave the job log alone, and
  \<open>_log_etl_job\<close> appends one row unless its insert fails. So every call of
  \<open>load_transformed_data\<close> appends at most one row.
\<close>

lemma execute_query_logs:
  assumes "execute_query stmt w = (r, w')"
    and "\<And>v u v'. stmt v = Inr (u, v') \<Longrightarrow> etl_job_logs v' = etl_job_logs v"
  shows "etl_job_logs w' = etl_job_logs w"
proof (cases r)
  case (Inl e)
  with assms(1) execute_query_Inl [of stmt w e w'] show ?thesis by auto
next
  case (Inr v)
  with assms(1) execute_query_Inr [of stmt w v w']
  obtain fs where "stmt (w\<lparr>faults := fs\<rparr>) = Inr (v, w')"
    by blast
  from assms(2) [OF this] show ?thesis by simp
qed

lemma load_stock_logs: "etl_job_logs (snd (load_stock stock w)) = etl_job_logs w"
proof -
  let ?sel = "select_stock (symbol stock)"
  obtain r1 w1 where q1: "execute_query ?sel w = (r1, w1)" by (cases "execute_query ?sel w")
  have w1: "etl_job_logs w1 = etl_job_logs w"
    using q1 by (rule execute_query_logs) (auto simp: select_stock_def split: if_splits)
  show ?thesis
    using q1 w1 by (auto simp: load_stock_def stock_name_def split: sum.splits)
qed

lemma load_single_price_record_logs:
  "etl_job_logs (snd (load_single_price_record p w)) = etl_job_logs w"
  using load_single_price_record_frame [of p w] by auto

lemma load_sequence_logs: "etl_job_logs (load_sequence ps w) = etl_job_logs w"
  by (induction ps arbitrary: w) (simp_all add: load_single_price_record_logs)

lemma log_etl_job_rows:
  "\<exists>rows. etl_job_logs (log_etl_job sy n_total n_processed status msg w) = etl_job_logs w @ rows
     \<and> length rows \<le> 1"
proof -
  let ?row = "\<lparr>lg_job_name = ''intraday_etl_'' @ sy, lg_status = status,
                         lg_start_time = clock w, lg_end_time = clock w,
                         lg_records_processed = n_processed,
                         lg_total_records = n_total,
                         lg_error_message = msg, lg_created_at = clock w\<rparr>"
  obtain r w' where q: "execute_query (insert_log ?row) w = (r, w')"
    by (cases "execute_query (insert_log ?row) w")
  show ?thesis
  proof (cases r)
    case (Inl e)
    with q execute_query_Inl [of "insert_log ?row" w e w']
    have "etl_job_logs (log_etl_job sy n_total n_processed status msg w) = etl_job_logs w @ []"
      by (auto simp: log_etl_job_def)
    then show ?thesis by (intro exI [of _ "[]"]) simp
  next
    case (Inr v)
    with q execute_query_Inr [of "insert_log ?row" w v w']
    obtain fs where "insert_log ?row (w\<lparr>faults := fs\<rparr>) = Inr (v, w')" by blast
    then obtain stored where "etl_job_logs w' = etl_job_logs w @ [stored]"
      by (auto simp: insert_log_def split: if_splits option.splits)
    with q have "etl_job_logs (log_etl_job sy n_total n_processed status msg w)
        = etl_job_logs w @ [stored]"
      by (simp add: log_etl_job_def)
    then show ?thesis by (intro exI [of _ "[stored]"]) simp
  qed
qed

lemma load_transformed_body_log_rows:
  assumes "load_transformed_body td w = (r, w1)"
  shows "\<exists>rows. etl_job_logs w1 = etl_job_logs w @ rows \<and> length rows \<le> 1"
proof -
  have same: "\<exists>rows. etl_job_logs v = etl_job_logs w @ rows \<and> length rows \<le> 1"
    if "etl_job_logs v = etl_job_logs w" for v
    using that by (intro exI [of _ "[]"]) simp
  show ?thesis
  proof (cases "td_metadata td")
    case None
    with assms show ?thesis by (auto simp: load_transformed_body_def intro: same)
  next
    case md: (Some m)
    show ?thesis
    proof (cases "md_symbol m")
      case None
      with assms md show ?thesis by (auto simp: load_transformed_body_def intro: same)
    next
      case sy: (Some sy)
      show ?thesis
      proof (cases "td_stock td")
        case None
        with assms md sy show ?thesis by (auto simp: load_transformed_body_def intro: same)
      next
        case stock: (Some stock)
        show ?thesis
        proof (cases "td_price_records td")
          case None
          with assms md sy stock show ?thesis
            by (auto simp: load_transformed_body_def intro: same)
        next
          case ps: (Some ps)
          obtain ok wa where ls: "load_stock stock w = (ok, wa)"
            by (cases "load_stock stock w")
          then have wa: "etl_job_logs wa = etl_job_logs w"
            using load_stock_logs [of stock w] by simp
          show ?thesis
          proof (cases ok)
            case False
            with assms md sy stock ps ls have "w1 = wa"
              by (simp add: load_transformed_body_def)
            with wa show ?thesis by (simp add: same)
          next
            case True
            obtain n wb where lp: "load_intraday_prices sy ps wa = (n, wb)"
              by (cases "load_intraday_prices sy ps wa")
            then have wb: "etl_job_logs wb = etl_job_logs w"
              using load_intraday_prices_sequence [of sy ps wa] load_sequence_logs [of ps wa] wa
              by simp
            from assms md sy stock ps ls True lp
            have "w1 = log_etl_job sy (int (length ps)) n ''SUCCESS'' None wb"
              by (simp add: load_transformed_body_def Let_def)
            with wb log_etl_job_rows [of sy "int (length ps)" n "''SUCCESS''" None wb]
            show ?thesis by auto
          qed
        qed
      qed
    qed
  qed
qed

lemma load_transformed_body_Inl_unchanged:
  "load_transformed_body td w = (Inl e, w1) \<Longrightarrow> w1 = w"
  by (auto simp: load_transformed_body_def Let_def
        split: option.splits prod.splits bool.splits)

lemma load_transformed_data_at_most_one_log_row:
  "\<exists>rows. etl_job_logs (snd (load_transformed_data t w)) = etl_job_logs w @ rows
     \<and> length rows \<le> 1"
proof (cases t)
  case None
  then have "etl_job_logs (snd (load_transformed_data t w)) = etl_job_logs w @ []"
    by (simp add: load_transformed_data_def)
  then show ?thesis by (intro exI [of _ "[]"]) simp
next
  case (Some td)
  show ?thesis
  proof (cases "td_empty td")
    case True
    with Some have "etl_job_logs (snd (load_transformed_data t w)) = etl_job_logs w @ []"
      by (simp add: load_transformed_data_def)
    then show ?thesis by (intro exI [of _ "[]"]) simp
  next
    case False
    obtain r w1 where body: "load_transformed_body td w = (r, w1)"
      by (cases "load_transformed_body td w")
    show ?thesis
    proof (cases r)
      case (Inl e)
      with body have "w1 = w" by (simp add: load_transformed_body_Inl_unchanged)
      with Some False body Inl log_etl_job_rows show ?thesis
        by (simp add: load_transformed_data_def Let_def)
    next
      case (Inr res)
      with Some False body load_transformed_body_log_rows [OF body] show ?thesis
        by (simp add: load_transformed_data_def)
    qed
  qed
qed

section \<open>Properties of the pipeline\<close>

lemma process_stock_intraday_never_raises:
  "\<exists>n w'. process_stock_intraday svc sy ivl w = (Inr n, w')"
  by (simp add: process_stock_intraday_def split: prod.splits sum.splits)

lemma process_stock_intraday_extraction_fails:
  assumes "\<And>w0. extraction_fails (fst (extractor svc sy ivl w0))"
  shows "fst (process_stock_intraday svc sy ivl w) = Inr 0"
proof -
  obtain r0 w0 where e: "ensure_db_connection w = (r0, w0)"
    by (cases "ensure_db_connection w")
  obtain r1 w1 where x: "extractor svc sy ivl w0 = (r1, w1)"
    by (cases "extractor svc sy ivl w0")
  have "extraction_fails r1"
    using assms [of w0] x by simp
  then show ?thesis
    using e x
    by (cases r0)
       (auto simp: process_stock_intraday_def process_stock_body_def extraction_fails_def
          Let_def split: sum.splits option.splits)
qed

lemma process_stock_intraday_success:
  assumes "ensure_db_connection w = (Inr (), w0)"
    and "extractor svc sy ivl w0 = (Inr (Some raw), w1)" "\<not> raw_empty raw"
    and "transformer svc raw w1 = (Inr (Some td), w2)" "\<not> td_empty td"
    and "loader svc td w2 = (Inr lr, w3)" "lr_success lr = Some True"
    and "lr_prices_loaded lr = Some n"
  shows "process_stock_intraday svc sy ivl w = (Inr n, w3)"
  using assms by (simp add: process_stock_intraday_def process_stock_body_def Let_def)

subsection \<open>The loop over the symbols\<close>

lemma process_multiple_loop_append:
  "process_multiple_loop svc ivl (xs @ ys) results w =
     (case process_multiple_loop svc ivl xs results w of
        (results1, w1) \<Rightarrow> process_multiple_loop svc ivl ys results1 w1)"
proof (induction xs arbitrary: results w)
  case Nil
  show ?case by simp
next
  case (Cons x xs)
  obtain r w1 where p: "process_stock_intraday svc x ivl w = (r, w1)"
    by (cases "process_stock_intraday svc x ivl w")
  show ?case
    by (cases r) (simp_all add: p Cons.IH del: fun_upd_apply)
qed

lemma process_multiple_loop_Cons:
  "process_multiple_loop svc ivl (sy # rest) results w =
     (case process_stock_intraday svc sy ivl w of
        (r, w1) \<Rightarrow>
          process_multiple_loop svc ivl rest
            (results(sy \<mapsto> (case r of Inr n \<Rightarrow> n | Inl e \<Rightarrow> 0))) w1)"
  by (simp split: prod.splits sum.splits)

lemma process_multiple_loop_dom:
  "dom (fst (process_multiple_loop svc ivl xs results w)) = dom results \<union> set xs"
proof (induction xs arbitrary: results w)
  case Nil
  show ?case by simp
next
  case (Cons x xs)
  obtain r w1 where p: "process_stock_intraday svc x ivl w = (r, w1)"
    by (cases "process_stock_intraday svc x ivl w")
  show ?case
    by (simp add: process_multiple_loop_Cons p Cons.IH
          del: process_multiple_loop.simps(2) fun_upd_apply)
qed

lemma process_multiple_loop_other:
  "s \<notin> set xs \<Longrightarrow> fst (process_multiple_loop svc ivl xs results w) s = results s"
proof (induction xs arbitrary: results w)
  case Nil
  show ?case by simp
next
  case (Cons x xs)
  obtain r w1 where p: "process_stock_intraday svc x ivl w = (r, w1)"
    by (cases "process_stock_intraday svc x ivl w")
  from Cons.prems have "s \<noteq> x" "s \<notin> set xs" by simp_all
  then show ?case
    by (simp add: process_multiple_loop_Cons p Cons.IH del: process_multiple_loop.simps(2))
qed

lemma process_multiple_entry:
  assumes "s \<notin> set post"
    and "process_stock_intraday svc s ivl
           (snd (process_multiple_stocks_intraday svc pre ivl w)) = (Inr n, w')"
  shows "fst (process_multiple_stocks_intraday svc (pre @ s # post) ivl w) s = Some n"
proof -
  obtain results1 w1 where pre: "process_multiple_loop svc ivl pre Map.empty w = (results1, w1)"
    by (cases "process_multiple_loop svc ivl pre Map.empty w")
  then have run: "process_stock_intraday svc s ivl w1 = (Inr n, w')"
    using assms(2) by (simp add: process_multiple_stocks_intraday_def)
  have "fst (process_multiple_loop svc ivl (pre @ s # post) Map.empty w) s
        = fst (process_multiple_loop svc ivl post (results1(s \<mapsto> n)) w') s"
    by (simp add: process_multiple_loop_append pre run)
  also have "\<dots> = Some n"
    using assms(1) by (simp add: process_multiple_loop_other)
  finally show ?thesis
    by (simp add: process_multiple_stocks_intraday_def)
qed

text \<open>
  C1. For any three components, whatever they return or raise, any list of symbols, any
  interval and any state: the map that \<open>process_multiple_stocks_intraday\<close> returns has
  an entry for exactly the symbols of the list. For each symbol \<open>s\<close> of the list, let
  \<open>pre\<close> be the symbols before its last occurrence. Then \<open>s\<close> is processed in the
  state that the run over \<open>pre\<close> left, whatever happened to the symbols of \<open>pre\<close>;
  that run of \<open>process_stock_intraday\<close> returns a number and does not raise; and the
  entry of \<open>s\<close> is that number. The number is 0 when the extraction of \<open>s\<close> fails in
  every state, and it is the count of loaded records that the loader reports when the
  extraction, the transformation and the load of \<open>s\<close> succeed.
\<close>

theorem partial_failure_isolation:
  assumes "s \<in> set syms"
  shows "dom (fst (process_multiple_stocks_intraday svc syms ivl w)) = set syms
    \<and> (\<exists>pre post. syms = pre @ s # post \<and> s \<notin> set post
        \<and> (\<exists>n w'. process_stock_intraday svc s ivl
                      (snd (process_multiple_stocks_intraday svc pre ivl w)) = (Inr n, w')
              \<and> fst (process_multiple_stocks_intraday svc syms ivl w) s = Some n)
        \<and> ((\<forall>w0. extraction_fails (fst (extractor svc s ivl w0))) \<longrightarrow>
              fst (process_multiple_stocks_intraday svc syms ivl w) s = Some 0)
        \<and> (\<forall>w0 raw w1 td w2 lr w3 n.
              ensure_db_connection (snd (process_multiple_stocks_intraday svc pre ivl w))
                = (Inr (), w0)
              \<and> extractor svc s ivl w0 = (Inr (Some raw), w1) \<and> \<not> raw_empty raw
              \<and> transformer svc raw w1 = (Inr (Some td), w2) \<and> \<not> td_empty td
              \<and> loader svc td w2 = (Inr lr, w3) \<and> lr_success lr = Some True
              \<and> lr_prices_loaded lr = Some n \<longrightarrow>
              fst (process_multiple_stocks_intraday svc syms ivl w) s = Some n))"
proof -
  have dom: "dom (fst (process_multiple_stocks_intraday svc syms ivl w)) = set syms"
    by (simp add: process_multiple_stocks_intraday_def process_multiple_loop_dom)
  obtain pre post where split: "syms = pre @ s # post" "s \<notin> set post"
    using split_list_last [OF assms] by blast
  let ?w = "snd (process_multiple_stocks_intraday svc pre ivl w)"
  obtain n w' where run: "process_stock_intraday svc s ivl ?w = (Inr n, w')"
    using process_stock_intraday_never_raises [of svc s ivl ?w] by blast
  have entry: "fst (process_multiple_stocks_intraday svc syms ivl w) s = Some n"
    using process_multiple_entry [OF split(2) run] split(1) by simp
  have fails: "fst (process_multiple_stocks_intraday svc syms ivl w) s = Some 0"
    if "\<forall>w0. extraction_fails (fst (extractor svc s ivl w0))"
  proof -
    have "fst (process_stock_intraday svc s ivl ?w) = Inr 0"
      using that by (intro process_stock_intraday_extraction_fails) blast
    with run entry show ?thesis by simp
  qed
  have loads: "fst (process_multiple_stocks_intraday svc syms ivl w) s = Some m"
    if "ensure_db_connection ?w = (Inr (), w0)
        \<and> extractor svc s ivl w0 = (Inr (Some raw), w1) \<and> \<not> raw_empty raw
        \<and> transformer svc raw w1 = (Inr (Some td), w2) \<and> \<not> td_empty td
        \<and> loader svc td w2 = (Inr lr, w3) \<and> lr_success lr = Some True
        \<and> lr_prices_loaded lr = Some m"
    for w0 raw w1 td w2 lr w3 m
  proof -
    have "process_stock_intraday svc s ivl ?w = (Inr m, w3)"
      using that by (intro process_stock_intraday_success [of ?w w0 svc s ivl raw w1 td w2 lr]) auto
    with run entry show ?thesis by simp
  qed
  from dom split run entry fails loads show ?thesis
    by blast
qed

text \<open>
  The run of the witness is over three symbols, the second of which cannot be fetched, in
  a process that has not yet opened its pool, on a database in which the two other stocks
  are registered.
\<close>

theorem partial_failure_isolation_witness:
  "dom (fst (process_multiple_stocks_intraday example_service
               [''AAPL'', ''FAIL'', ''MSFT''] ''5min'' fresh_world))
     = {''AAPL'', ''FAIL'', ''MSFT''}
   \<and> fst (process_multiple_stocks_intraday example_service
            [''AAPL'', ''FAIL'', ''MSFT''] ''5min'' fresh_world) ''AAPL'' = Some 1
   \<and> fst (process_multiple_stocks_intraday example_service
            [''AAPL'', ''FAIL'', ''MSFT''] ''5min'' fresh_world) ''FAIL'' = Some 0
   \<and> fst (process_multiple_stocks_intraday example_service
            [''AAPL'', ''FAIL'', ''MSFT''] ''5min'' fresh_world) ''MSFT'' = Some 1"
proof -
  have member: "''FAIL'' \<in> set [''AAPL'', ''FAIL'', ''MSFT'']" by simp
  have fails: "\<forall>w0. extraction_fails (fst (extractor example_service ''FAIL'' ''5min'' w0))"
    by (simp add: example_service_def etl_service_def extract_intraday_data_def
          example_network_def example_strlib_def extraction_fails_def)
  from partial_failure_isolation [OF member, of example_service "''5min''" fresh_world] fails
  have "dom (fst (process_multiple_stocks_intraday example_service
               [''AAPL'', ''FAIL'', ''MSFT''] ''5min'' fresh_world))
          = {''AAPL'', ''FAIL'', ''MSFT''}
        \<and> fst (process_multiple_stocks_intraday example_service
            [''AAPL'', ''FAIL'', ''MSFT''] ''5min'' fresh_world) ''FAIL'' = Some 0"
    by auto
  moreover have "fst (process_multiple_stocks_intraday example_service
            [''AAPL'', ''FAIL'', ''MSFT''] ''5min'' fresh_world) ''AAPL'' = Some 1"
    by code_simp
  moreover have "fst (process_multiple_stocks_intraday example_service
            [''AAPL'', ''FAIL'', ''MSFT''] ''5min'' fresh_world) ''MSFT'' = Some 1"
    by code_simp
  ultimately show ?thesis by simp
qed

text \<open>
  The same run, in full: the failed fetch in the middle leaves a \<open>FAILED\<close> row in the
  job log between the two \<open>SUCCESS\<close> rows, and both other symbols have their bar
  stored.
\<close>

lemma example_run_job_log:
  "map (\<lambda>row. (lg_job_name row, lg_status row, lg_records_processed row))
     (etl_job_logs (snd (process_multiple_stocks_intraday example_service
        [''AAPL'', ''FAIL'', ''MSFT''] ''5min'' fresh_world)))
   = [(''intraday_etl_AAPL'', ''SUCCESS'', 1), (''intraday_etl_FAIL'', ''FAILED'', 0),
      (''intraday_etl_MSFT'', ''SUCCESS'', 1)]
   \<and> map pr_stock_symbol
     (stock_prices_intraday (snd (process_multiple_stocks_intraday example_service
        [''AAPL'', ''FAIL'', ''MSFT''] ''5min'' fresh_world)))
   = [''AAPL'', ''MSFT'']"
  by code_simp

text \<open>
  On a database without the rows of \<open>stocks\<close> the same run reports 0 for all three
  symbols: \<open>load_stock\<close> fails for a stock that is not yet registered, and the
  loader returns before it loads a price or writes its log row. Only the failed fetch is
  logged.
\<close>

lemma example_run_unregistered:
  "map (fst (process_multiple_stocks_intraday example_service
          [''AAPL'', ''FAIL'', ''MSFT''] ''5min'' (empty_world\<lparr>connection_pool := False\<rparr>)))
     [''AAPL'', ''FAIL'', ''MSFT''] = [Some 0, Some 0, Some 0]
   \<and> map (\<lambda>row. (lg_job_name row, lg_status row, lg_records_processed row))
     (etl_job_logs (snd (process_multiple_stocks_intraday example_service
        [''AAPL'', ''FAIL'', ''MSFT''] ''5min'' (empty_world\<lparr>connection_pool := False\<rparr>))))
   = [(''intraday_etl_FAIL'', ''FAILED'', 0)]
   \<and> stock_prices_intraday (snd (process_multiple_stocks_intraday example_service
        [''AAPL'', ''FAIL'', ''MSFT''] ''5min'' (empty_world\<lparr>connection_pool := False\<rparr>))) = []"
  by code_simp

section \<open>Properties of the streaming worker\<close>

lemma wait_loop_ge: "poll \<le> wait_loop stop_at n poll"
  by (induction n arbitrary: poll) (auto intro: Suc_leD)

lemma cap_reached_zero: "cap_reached (Some 0) it = cap_reached None it"
  by (simp add: cap_reached_def)

lemmas streaming_loop_induct = streaming_loop.raw_induct [rotated 1, consumes 1, case_names step]

text \<open>One turn of the loop that neither finds the flag set nor the cap reached.\<close>

lemma streaming_loop_turn:
  assumes "\<not> is_set stop_at (polls st)" "\<not> cap_reached mi (iteration st)"
  shows "streaming_loop svc syms ivl mi cb stop_at utcnow_at st =
     (case next_run_time (utcnow_at (iteration st + 1)) ivl of
        Inl e \<Rightarrow> Some \<lparr>iteration = iteration st + 1, polls = Suc (polls st),
                   ws_world = streaming_cycle svc syms cb (iteration st + 1) (ws_world st)\<rparr>
      | Inr next_run \<Rightarrow>
          streaming_loop svc syms ivl mi cb stop_at utcnow_at
            \<lparr>iteration = iteration st + 1,
             polls = wait_loop stop_at (nat (ivl * 60)) (Suc (polls st)),
             ws_world = streaming_cycle svc syms cb (iteration st + 1) (ws_world st)\<rparr>)"
  using assms by (subst streaming_loop.simps) (simp add: Let_def split: sum.splits)

lemma streaming_loop_end:
  assumes "is_set stop_at (polls st) \<or> cap_reached mi (iteration st)"
  shows "streaming_loop svc syms ivl mi cb stop_at utcnow_at st
           = Some (st\<lparr>polls := Suc (polls st)\<rparr>)"
  using assms by (subst streaming_loop.simps) auto

lemma streaming_loop_same_cap:
  assumes "streaming_loop svc syms ivl mi cb stop_at utcnow_at st = Some y"
    and "\<forall>it. cap_reached mi' it = cap_reached mi it"
  shows "streaming_loop svc syms ivl mi' cb stop_at utcnow_at st = Some y"
  using assms
proof (induction arbitrary: mi' rule: streaming_loop_induct)
  case (step loop svc syms ivl mi cb stop_at utcnow_at st y)
  show ?case
  proof (cases "is_set stop_at (polls st) \<or> cap_reached mi (iteration st)")
    case True
    with step.hyps step.prems show ?thesis
      by (subst streaming_loop.simps) (auto split: if_splits)
  next
    case False
    then have turn: "\<not> is_set stop_at (polls st)" "\<not> cap_reached mi' (iteration st)"
      using step.prems by simp_all
    show ?thesis
    proof (cases "next_run_time (utcnow_at (iteration st + 1)) ivl")
      case (Inl e)
      with False step.hyps show ?thesis
        by (simp add: streaming_loop_turn [OF turn] Let_def)
    next
      case (Inr next_run)
      with False step.hyps have "loop svc syms ivl mi cb stop_at utcnow_at
          \<lparr>iteration = iteration st + 1,
           polls = wait_loop stop_at (nat (ivl * 60)) (Suc (polls st)),
           ws_world = streaming_cycle svc syms cb (iteration st + 1) (ws_world st)\<rparr> = Some y"
        by (simp add: Let_def)
      from step.IH [OF this step.prems] Inr show ?thesis
        by (simp add: streaming_loop_turn [OF turn])
    qed
  qed
qed

lemma streaming_loop_cap_cong:
  assumes "\<And>it. cap_reached mi' it = cap_reached mi it"
  shows "streaming_loop svc syms ivl mi' cb stop_at utcnow_at st
           = streaming_loop svc syms ivl mi cb stop_at utcnow_at st"
proof (cases "streaming_loop svc syms ivl mi cb stop_at utcnow_at st")
  case (Some y)
  then show ?thesis
    using streaming_loop_same_cap [OF Some, of mi'] assms by simp
next
  case None
  show ?thesis
  proof (cases "streaming_loop svc syms ivl mi' cb stop_at utcnow_at st")
    case (Some y)
    from streaming_loop_same_cap [OF Some, of mi] assms None show ?thesis by simp
  qed (simp add: None)
qed

text \<open>
  Without a cap that can be reached, the loop returns only when it finds the flag set or
  when the computation of the next run time raises, and then in the cycle it returns in.
\<close>

lemma streaming_loop_returns_only_if_stopped_or_raised:
  assumes "streaming_loop svc syms ivl mi cb stop_at utcnow_at st = Some y"
    and "\<forall>it. \<not> cap_reached mi it"
  shows "stop_at \<noteq> None \<or> (\<exists>e. next_run_time (utcnow_at (iteration y)) ivl = Inl e)"
  using assms
proof (induction rule: streaming_loop_induct)
  case (step loop svc syms ivl mi cb stop_at utcnow_at st y)
  show ?case
  proof (cases "is_set stop_at (polls st)")
    case True
    then show ?thesis by (auto simp: is_set_def split: option.splits)
  next
    case False
    show ?thesis
    proof (cases "next_run_time (utcnow_at (iteration st + 1)) ivl")
      case (Inl e)
      with False step.hyps step.prems
      have "iteration y = iteration st + 1"
        by (auto simp: Let_def)
      with Inl show ?thesis by simp
    next
      case (Inr next_run)
      with False step.hyps step.prems have "loop svc syms ivl mi cb stop_at utcnow_at
          \<lparr>iteration = iteration st + 1,
           polls = wait_loop stop_at (nat (ivl * 60)) (Suc (polls st)),
           ws_world = streaming_cycle svc syms cb (iteration st + 1) (ws_world st)\<rparr> = Some y"
        by (simp add: Let_def)
      from step.IH [OF this step.prems] show ?thesis .
    qed
  qed
qed

lemma streaming_loop_returns_when_stopped:
  "\<exists>y. streaming_loop svc syms ivl mi cb (Some k) utcnow_at st = Some y
        \<and> iteration st \<le> iteration y
        \<and> (polls st < k \<and> \<not> cap_reached mi (iteration st) \<longrightarrow> iteration st + 1 \<le> iteration y)"
proof (induction "Suc k - polls st" arbitrary: st rule: less_induct)
  case less
  show ?case
  proof (cases "is_set (Some k) (polls st) \<or> cap_reached mi (iteration st)")
    case True
    then show ?thesis
      by (auto simp: streaming_loop_end is_set_def)
  next
    case False
    then have turn: "\<not> is_set (Some k) (polls st)" "\<not> cap_reached mi (iteration st)"
      by simp_all
    show ?thesis
    proof (cases "next_run_time (utcnow_at (iteration st + 1)) ivl")
      case (Inl e)
      then show ?thesis
        by (simp add: streaming_loop_turn [OF turn])
    next
      case (Inr next_run)
      let ?st' = "\<lparr>iteration = iteration st + 1,
           polls = wait_loop (Some k) (nat (ivl * 60)) (Suc (polls st)),
           ws_world = streaming_cycle svc syms cb (iteration st + 1) (ws_world st)\<rparr>"
      have "Suc (polls st) \<le> polls ?st'"
        using wait_loop_ge [of "Suc (polls st)" "Some k" "nat (ivl * 60)"] by simp
      moreover have "polls st < k"
        using False by (simp add: is_set_def)
      ultimately have "Suc k - polls ?st' < Suc k - polls st"
        by linarith
      from less [OF this]
      obtain y where y: "streaming_loop svc syms ivl mi cb (Some k) utcnow_at ?st' = Some y"
        "iteration ?st' \<le> iteration y"
        by blast
      have "streaming_loop svc syms ivl mi cb (Some k) utcnow_at st = Some y"
        using Inr y(1) by (simp add: streaming_loop_turn [OF turn])
      with y(2) show ?thesis
        by auto
    qed
  qed
qed

lemma streaming_loop_positive_cap:
  assumes "0 < n" "iteration st \<le> n"
  shows "\<exists>y. streaming_loop svc syms ivl (Some n) cb stop_at utcnow_at st = Some y
        \<and> iteration st \<le> iteration y \<and> iteration y \<le> n
        \<and> (stop_at = None \<and> (\<forall>i. \<exists>d. next_run_time (utcnow_at i) ivl = Inr d)
             \<longrightarrow> iteration y = n)"
  using assms(2)
proof (induction "nat (n - iteration st)" arbitrary: st rule: less_induct)
  case less
  show ?case
  proof (cases "is_set stop_at (polls st)")
    case True
    then show ?thesis
      using less.prems by (auto simp: streaming_loop_end is_set_def split: option.splits)
  next
    case False
    show ?thesis
    proof (cases "cap_reached (Some n) (iteration st)")
      case True
      then have "iteration st = n"
        using less.prems by (simp add: cap_reached_def)
      with True show ?thesis
        by (simp add: streaming_loop_end)
    next
      case cap: False
      have lt: "iteration st < n"
        using cap assms(1) less.prems by (simp add: cap_reached_def)
      show ?thesis
      proof (cases "next_run_time (utcnow_at (iteration st + 1)) ivl")
        case (Inl e)
        then have "\<not> (\<forall>i. \<exists>d. next_run_time (utcnow_at i) ivl = Inr d)"
          by (auto intro!: exI [of _ "iteration st + 1"])
        with Inl lt show ?thesis
          by (auto simp: streaming_loop_turn [OF False cap])
      next
        case (Inr next_run)
        let ?st' = "\<lparr>iteration = iteration st + 1,
             polls = wait_loop stop_at (nat (ivl * 60)) (Suc (polls st)),
             ws_world = streaming_cycle svc syms cb (iteration st + 1) (ws_world st)\<rparr>"
        from lt have "nat (n - iteration ?st') < nat (n - iteration st)" "iteration ?st' \<le> n"
          by simp_all
        from less.hyps [OF this]
        obtain y where y: "streaming_loop svc syms ivl (Some n) cb stop_at utcnow_at ?st' = Some y"
          "iteration ?st' \<le> iteration y" "iteration y \<le> n"
          "stop_at = None \<and> (\<forall>i. \<exists>d. next_run_time (utcnow_at i) ivl = Inr d)
             \<longrightarrow> iteration y = n"
          by blast
        have "streaming_loop svc syms ivl (Some n) cb stop_at utcnow_at st = Some y"
          using Inr y(1) by (simp add: streaming_loop_turn [OF False cap])
        with y(2,3,4) show ?thesis by auto
      qed
    qed
  qed
qed

lemma next_run_time_example: "\<exists>d. next_run_time (example_clock i) 5 = Inr d"
proof -
  have "0 \<le> i mod 60" "i mod 60 < 60" by simp_all
  then have "(605 + i mod 60) div 1440 = 0"
    by (simp add: div_pos_pos_trivial)
  then show ?thesis
    by (simp add: next_run_time_def example_clock_def wednesday_def at_hour_def
          MAXORDINAL_def Let_def add.commute)
qed

text \<open>
  C10, as the code has it. The computation of the next run time stands outside the
  \<open>try\<close> of the cycle. With an interval of a thousand million days the
  \<open>timedelta\<close> raises \<open>OverflowError\<close> after the first cycle, and the handler of
  the worker ends the loop: with \<open>max_iterations = 0\<close> and a stop flag that is never
  set, the worker has returned after one cycle.
\<close>

theorem zero_cap_overflow_counterexample:
  "map_option (iteration \<circ> fst)
     (streaming_worker example_service [''AAPL''] huge_interval (Some 0) None None
        example_clock fresh_world) = Some 1
   \<and> is_set None 0 = False \<and> is_set None 1 = False"
proof -
  have "next_run_time (example_clock (0 + 1)) huge_interval
          = Inl (OverflowError ''days out of range for timedelta'')"
    by (simp add: next_run_time_def huge_interval_def)
  then show ?thesis
    by (simp add: streaming_worker_def streaming_loop_turn is_set_def cap_reached_def)
qed

text \<open>
  C10, amended. \<open>start_streaming\<close> on a service that is not running starts the worker
  with \<open>max_iterations\<close> as received, 0 included. With \<open>max_iterations = 0\<close> the
  worker behaves as with no cap at all: the two runs are equal. It returns only when the
  stop flag is set at some poll or when the computation of the next run time raises; and
  where that computation never raises, it returns exactly when the flag is set at some
  poll, and runs for ever with a flag that is never set. If the flag is set, but not yet at
  the first poll, the worker has performed at least one cycle when it returns, so a cap
  of 0 does not stop it after zero cycles. With a positive cap \<open>n\<close> the worker returns
  whatever the flag does, with \<open>is_running\<close> cleared, after at most \<open>n\<close> cycles,
  and after exactly \<open>n\<close> cycles if the flag is never set and the computation of the
  next run time never raises.
\<close>

theorem zero_cap_never_fires:
  "(\<not> ss_is_running self \<longrightarrow>
      (\<exists>self' given. start_streaming self syms_arg ivl (Some 0) cb' = (True, self')
         \<and> ss_streaming_thread self' = Some (given, ivl, Some 0, cb')))
   \<and> streaming_worker svc syms ivl (Some 0) cb stop_at utcnow_at w
     = streaming_worker svc syms ivl None cb stop_at utcnow_at w
   \<and> (\<forall>st running.
         streaming_worker svc syms ivl (Some 0) cb stop_at utcnow_at w = Some (st, running) \<longrightarrow>
           stop_at \<noteq> None \<or> (\<exists>e. next_run_time (utcnow_at (iteration st)) ivl = Inl e))
   \<and> ((\<forall>i. \<exists>d. next_run_time (utcnow_at i) ivl = Inr d) \<longrightarrow>
        (streaming_worker svc syms ivl (Some 0) cb stop_at utcnow_at w \<noteq> None)
          = (stop_at \<noteq> None))
   \<and> (\<forall>k. stop_at = Some (Suc k) \<longrightarrow>
         (\<exists>st. streaming_worker svc syms ivl (Some 0) cb stop_at utcnow_at w = Some (st, False)
            \<and> 1 \<le> iteration st))
   \<and> (0 < n \<longrightarrow>
         (\<exists>st. streaming_worker svc syms ivl (Some n) cb stop_at utcnow_at w = Some (st, False)
            \<and> 0 \<le> iteration st \<and> iteration st \<le> n
            \<and> (stop_at = None \<and> (\<forall>i. \<exists>d. next_run_time (utcnow_at i) ivl = Inr d)
                 \<longrightarrow> iteration st = n)))"
proof (intro conjI allI impI)
  assume "\<not> ss_is_running self"
  then show "\<exists>self' given. start_streaming self syms_arg ivl (Some 0) cb' = (True, self')
         \<and> ss_streaming_thread self' = Some (given, ivl, Some 0, cb')"
    by (simp add: start_streaming_def Let_def)
next
  show "streaming_worker svc syms ivl (Some 0) cb stop_at utcnow_at w
     = streaming_worker svc syms ivl None cb stop_at utcnow_at w"
    by (simp add: streaming_worker_def streaming_loop_cap_cong [of "Some 0" None]
          cap_reached_zero)
next
  fix st running
  assume "streaming_worker svc syms ivl (Some 0) cb stop_at utcnow_at w = Some (st, running)"
  then have "streaming_loop svc syms ivl (Some 0) cb stop_at utcnow_at
               \<lparr>iteration = 0, polls = 0, ws_world = w\<rparr> = Some st"
    by (auto simp: streaming_worker_def split: option.splits)
  from streaming_loop_returns_only_if_stopped_or_raised [OF this]
  show "stop_at \<noteq> None \<or> (\<exists>e. next_run_time (utcnow_at (iteration st)) ivl = Inl e)"
    by (simp add: cap_reached_def)
next
  let ?st0 = "\<lparr>iteration = 0, polls = 0, ws_world = w\<rparr>"
  assume fine: "\<forall>i. \<exists>d. next_run_time (utcnow_at i) ivl = Inr d"
  show "(streaming_worker svc syms ivl (Some 0) cb stop_at utcnow_at w \<noteq> None)
          = (stop_at \<noteq> None)"
  proof
    assume "streaming_worker svc syms ivl (Some 0) cb stop_at utcnow_at w \<noteq> None"
    then obtain y where "streaming_loop svc syms ivl (Some 0) cb stop_at utcnow_at ?st0 = Some y"
      by (auto simp: streaming_worker_def split: option.splits)
    from streaming_loop_returns_only_if_stopped_or_raised [OF this]
    have "stop_at \<noteq> None \<or> (\<exists>e. next_run_time (utcnow_at (iteration y)) ivl = Inl e)"
      by (simp add: cap_reached_def)
    moreover from fine obtain d where "next_run_time (utcnow_at (iteration y)) ivl = Inr d"
      by blast
    ultimately show "stop_at \<noteq> None"
      by auto
  next
    assume "stop_at \<noteq> None"
    then obtain k where "stop_at = Some k" by blast
    with streaming_loop_returns_when_stopped [of svc syms ivl "Some 0" cb k utcnow_at ?st0]
    show "streaming_worker svc syms ivl (Some 0) cb stop_at utcnow_at w \<noteq> None"
      by (auto simp: streaming_worker_def)
  qed
next
  fix k
  assume "stop_at = Some (Suc k)"
  with streaming_loop_returns_when_stopped
    [of svc syms ivl "Some 0" cb "Suc k" utcnow_at "\<lparr>iteration = 0, polls = 0, ws_world = w\<rparr>"]
  show "\<exists>st. streaming_worker svc syms ivl (Some 0) cb stop_at utcnow_at w = Some (st, False)
            \<and> 1 \<le> iteration st"
    by (auto simp: streaming_worker_def cap_reached_def)
next
  assume "0 < n"
  from streaming_loop_positive_cap
    [OF this, of "\<lparr>iteration = 0, polls = 0, ws_world = w\<rparr>" svc syms ivl cb stop_at utcnow_at]
    \<open>0 < n\<close>
  show "\<exists>st. streaming_worker svc syms ivl (Some n) cb stop_at utcnow_at w = Some (st, False)
            \<and> 0 \<le> iteration st \<and> iteration st \<le> n
            \<and> (stop_at = None \<and> (\<forall>i. \<exists>d. next_run_time (utcnow_at i) ivl = Inr d)
                 \<longrightarrow> iteration st = n)"
    by (auto simp: streaming_worker_def)
qed

theorem zero_cap_never_fires_witness:
  "streaming_worker example_service [''AAPL''] 5 (Some 0) None None example_clock fresh_world
     = None
   \<and> (\<exists>st. streaming_worker example_service [''AAPL''] 5 (Some 2) None None example_clock
              fresh_world = Some (st, False) \<and> iteration st = 2)"
proof -
  note facts = zero_cap_never_fires
    [of "\<lparr>ss_is_running = False, ss_stop_event = False, ss_streaming_thread = None\<rparr>"
        None 5 "None :: stream_callback option"
        example_service "[''AAPL'']" None None example_clock fresh_world 2]
  have fine: "\<forall>i. \<exists>d. next_run_time (example_clock i) 5 = Inr d"
    using next_run_time_example by blast
  from facts fine
  have "(streaming_worker example_service [''AAPL''] 5 (Some 0) None None example_clock
           fresh_world \<noteq> None) = ((None :: nat option) \<noteq> None)"
    by blast
  then have "streaming_worker example_service [''AAPL''] 5 (Some 0) None None example_clock
               fresh_world = None"
    by blast
  moreover from facts have "(0::int) < 2 \<longrightarrow>
      (\<exists>st. streaming_worker example_service [''AAPL''] 5 (Some 2) None None example_clock
               fresh_world = Some (st, False) \<and> 0 \<le> iteration st \<and> iteration st \<le> 2
              \<and> ((None :: nat option) = None
                   \<and> (\<forall>i. \<exists>d. next_run_time (example_clock i) 5 = Inr d)
                  \<longrightarrow> iteration st = 2))"
    by blast
  with fine
  have "\<exists>st. streaming_worker example_service [''AAPL''] 5 (Some 2) None None example_clock
               fresh_world = Some (st, False) \<and> iteration st = 2"
    by auto
  ultimately show ?thesis by blast
qed

end
